theory Spec2Isabelle
  imports Complex_Main
begin

section \<open>Air hockey: the bounce component and the score loop\<close>

text \<open>
  The development embeds two pieces of the game: the collision script
  \<^verbatim>\<open>BounceBehaviour\<close> (BounceBehaviour.cpp) and the scoring part of the frame loop of
  \<^verbatim>\<open>main\<close> (main.cpp: goal detection, \<^verbatim>\<open>scoreCheck\<close>, \<^verbatim>\<open>scoreCheckReset\<close>,
  \<^verbatim>\<open>checkIsReseting\<close>, \<^verbatim>\<open>lightReset\<close>).

  Conventions of the embedding.
  \<^item> A \<^verbatim>\<open>float\<close> is modelled by the real number it denotes and float arithmetic by exact
    real arithmetic: rounding, overflow and infinities are not modelled. Comparisons of
    floats are exact in the program as well, so they are modelled without loss.
  \<^item> A division by zero, which in the float code produces an infinity or a NaN that then
    flows into every later result, is the outcome \<open>NotANumber\<close> of the model (HOL would
    silently return \<open>0\<close>).
  \<^item> Dereferencing a null pointer and subscripting a vector out of range are undefined
    behaviour in C++; they are the outcomes \<open>NullPointer\<close> and \<open>OutOfRange\<close>.
  \<^item> Console output (\<^verbatim>\<open>printf\<close>, \<^verbatim>\<open>std::cout\<close>) and the blocking \<^verbatim>\<open>Sleep(1000)\<close> are
    not part of the modelled state.
\<close>

datatype error = NullPointer | NotANumber | OutOfRange

subsection \<open>glm vectors and quaternions\<close>

text \<open>
  \<^verbatim>\<open>glm::vec3\<close>, \<^verbatim>\<open>glm::vec4\<close> and \<^verbatim>\<open>glm::quat\<close>. The components \<^verbatim>\<open>x\<close>, \<^verbatim>\<open>y\<close>, \<^verbatim>\<open>z\<close>, \<^verbatim>\<open>w\<close>
  carry a prefix here, since a selector named \<open>x\<close> would capture that variable name.
\<close>

type_synonym float = real

datatype vec3 = Vec3 (vx: float) (vy: float) (vz: float)

datatype vec4 = Vec4 (v4x: float) (v4y: float) (v4z: float) (v4w: float)

datatype quat = Quat (qw: float) (qx: float) (qy: float) (qz: float)

definition vec3_zero :: vec3 where
  "vec3_zero = Vec3 0 0 0"

definition vadd :: "vec3 \<Rightarrow> vec3 \<Rightarrow> vec3" where
  "vadd a b = Vec3 (vx a + vx b) (vy a + vy b) (vz a + vz b)"

definition vsub :: "vec3 \<Rightarrow> vec3 \<Rightarrow> vec3" where
  "vsub a b = Vec3 (vx a - vx b) (vy a - vy b) (vz a - vz b)"

definition smul :: "vec3 \<Rightarrow> float \<Rightarrow> vec3" where
  "smul a k = Vec3 (vx a * k) (vy a * k) (vz a * k)"

definition set_x :: "float \<Rightarrow> vec3 \<Rightarrow> vec3" where
  "set_x k a = Vec3 k (vy a) (vz a)"

definition set_z :: "float \<Rightarrow> vec3 \<Rightarrow> vec3" where
  "set_z k a = Vec3 (vx a) (vy a) k"

text \<open>
  The glm functions the script calls, written after the library's own definitions:
  \<^verbatim>\<open>dot(a,b) = a.x*b.x + a.y*b.y + a.z*b.z\<close>, \<^verbatim>\<open>length(v) = sqrt(dot(v,v))\<close>,
  \<^verbatim>\<open>normalize(v) = v * inversesqrt(dot(v,v))\<close>, \<^verbatim>\<open>reflect(I,N) = I - N * dot(N,I) * 2\<close>,
  \<^verbatim>\<open>cross\<close>, and the products of a quaternion with a vector:
  \<^verbatim>\<open>q * v = v + ((cross(u,v) * q.w) + cross(u,cross(u,v))) * 2\<close> with \<^verbatim>\<open>u = (q.x,q.y,q.z)\<close>,
  \<^verbatim>\<open>v * q = inverse(q) * v\<close>, \<^verbatim>\<open>inverse(q) = conjugate(q) / dot(q,q)\<close>.
\<close>

definition glm_dot :: "vec3 \<Rightarrow> vec3 \<Rightarrow> float" where
  "glm_dot a b = vx a * vx b + vy a * vy b + vz a * vz b"

definition glm_length :: "vec3 \<Rightarrow> float" where
  "glm_length v = sqrt (glm_dot v v)"

definition glm_normalize :: "vec3 \<Rightarrow> error + vec3" where
  "glm_normalize v =
     (if glm_dot v v = 0 then Inl NotANumber
      else Inr (smul v (1 / sqrt (glm_dot v v))))"

definition glm_reflect :: "vec3 \<Rightarrow> vec3 \<Rightarrow> vec3" where
  "glm_reflect I N = vsub I (smul (smul N (glm_dot N I)) 2)"

definition glm_cross :: "vec3 \<Rightarrow> vec3 \<Rightarrow> vec3" where
  "glm_cross a b =
     Vec3 (vy a * vz b - vy b * vz a)
          (vz a * vx b - vz b * vx a)
          (vx a * vy b - vx b * vy a)"

definition quat_dot :: "quat \<Rightarrow> quat \<Rightarrow> float" where
  "quat_dot p q = qx p * qx q + qy p * qy q + qz p * qz q + qw p * qw q"

definition quat_conjugate :: "quat \<Rightarrow> quat" where
  "quat_conjugate q = Quat (qw q) (- qx q) (- qy q) (- qz q)"

definition quat_inverse :: "quat \<Rightarrow> error + quat" where
  "quat_inverse q =
     (let c = quat_conjugate q; d = quat_dot q q
      in if d = 0 then Inl NotANumber
         else Inr (Quat (qw c / d) (qx c / d) (qy c / d) (qz c / d)))"

definition quat_mul_vec3 :: "quat \<Rightarrow> vec3 \<Rightarrow> vec3" where
  "quat_mul_vec3 q v =
     (let QuatVector = Vec3 (qx q) (qy q) (qz q);
          uv = glm_cross QuatVector v;
          uuv = glm_cross QuatVector uv
      in vadd v (smul (vadd (smul uv (qw q)) uuv) 2))"

definition quat_mul_vec4 :: "quat \<Rightarrow> vec4 \<Rightarrow> vec4" where
  "quat_mul_vec4 q v =
     (let r = quat_mul_vec3 q (Vec3 (v4x v) (v4y v) (v4z v))
      in Vec4 (vx r) (vy r) (vz r) (v4w v))"

definition vec4_mul_quat :: "vec4 \<Rightarrow> quat \<Rightarrow> error + vec4" where
  "vec4_mul_quat v q =
     (case quat_inverse q of
        Inl e \<Rightarrow> Inl e
      | Inr qi \<Rightarrow> Inr (quat_mul_vec4 qi v))"

subsection \<open>Engine objects\<close>

text \<open>
  The engine's \<^verbatim>\<open>GameObject\<close>, \<^verbatim>\<open>RigidBody\<close> and \<^verbatim>\<open>TriggerVolume\<close> classes are used by the
  sources through their public members only; the records hold the parts of their state
  that the embedded code reads or writes.
\<close>

record GameObject =
  Name :: string
  position :: vec3
  rotation :: quat

record RigidBody =
  linearVelocity :: vec3

record TriggerVolume =
  triggerOwner :: GameObject

text \<open>
  Modelled from the spec: \<^verbatim>\<open>GameObject::GetPosition\<close>, \<^verbatim>\<open>GameObject::SetPostion\<close> and
  \<^verbatim>\<open>GameObject::GetRotation\<close> are not among the sources. The spec has the loop read the
  puck's world position, teleport (reposition) the puck, and read a boundary surface's
  world rotation.
\<close>

definition GetPosition :: "GameObject \<Rightarrow> vec3" where
  "GetPosition g = position g"

definition SetPostion :: "vec3 \<Rightarrow> GameObject \<Rightarrow> GameObject" where
  "SetPostion p g = g\<lparr>position := p\<rparr>"

definition GetRotation :: "GameObject \<Rightarrow> quat" where
  "GetRotation g = rotation g"

text \<open>
  Modelled from the spec: \<^verbatim>\<open>TriggerVolume::GetGameObject\<close> is not among the sources. The
  spec's trigger event carries a reference to the object that owns the boundary surface.
\<close>

definition GetGameObject :: "TriggerVolume \<Rightarrow> GameObject" where
  "GetGameObject t = triggerOwner t"

text \<open>
  Modelled from the spec: \<^verbatim>\<open>RigidBody::GetVelocity\<close>, \<^verbatim>\<open>RigidBody::resetVelocity\<close> and
  \<^verbatim>\<open>RigidBody::ApplyImpulse\<close> are not among the sources. The spec's rigid body handle
  exposes the current linear velocity; resetting clears the body's existing velocity
  (sets it to zero); an impulse is an instantaneous change applied to the body's
  velocity, so that the impulse applied after a reset is the new velocity.
\<close>

definition GetVelocity :: "RigidBody \<Rightarrow> vec3" where
  "GetVelocity r = linearVelocity r"

definition resetVelocity :: "RigidBody \<Rightarrow> RigidBody" where
  "resetVelocity r = r\<lparr>linearVelocity := vec3_zero\<rparr>"

definition ApplyImpulse :: "vec3 \<Rightarrow> RigidBody \<Rightarrow> RigidBody" where
  "ApplyImpulse j r = r\<lparr>linearVelocity := vadd (linearVelocity r) j\<rparr>"

subsection \<open>BounceBehaviour\<close>

text \<open>
  The component's fields (BounceBehaviour.h). \<open>gameObj\<close> is a raw pointer and \<open>rigidOBJ\<close> a
  shared pointer: \<open>None\<close> is the null pointer, \<open>Some\<close> carries the state of the object
  pointed to, so that a change the script makes to the body shows in \<open>rigidOBJ\<close>.
\<close>

record BounceBehaviour =
  gameObj :: "GameObject option"
  rigidOBJ :: "RigidBody option"
  isInCollision :: bool
  reflectionVelocity :: vec3
  repelVelocity :: vec3

text \<open>
  \<^verbatim>\<open>Awake\<close>: \<open>owner\<close> is the result of \<^verbatim>\<open>GetGameObject()\<close>, \<open>body\<close> the result of
  \<^verbatim>\<open>GetComponent<RigidBody>()\<close> on it (null when the owner has no rigid body).
\<close>

definition Awake :: "GameObject \<Rightarrow> RigidBody option \<Rightarrow> BounceBehaviour \<Rightarrow> BounceBehaviour" where
  "Awake owner body b =
     (let b1 = b\<lparr>gameObj := Some owner\<rparr>
      in if Name owner = ''Puck'' then b1\<lparr>rigidOBJ := body\<rparr> else b1)"

text \<open>
  The local variables of \<^verbatim>\<open>OnEnteredTrigger\<close>, in the order the source computes them:
  the flattened velocity (lines 20-21), the flattened inward edge vector (lines 23-28),
  and the reflected direction before scaling (lines 35-36).
\<close>

definition flatVelocity :: "RigidBody \<Rightarrow> vec3" where
  "flatVelocity body = set_z 0 (GetVelocity body)"

definition edgeVector :: "TriggerVolume \<Rightarrow> error + vec3" where
  "edgeVector trigger =
     (let forwVec = Vec3 0 1 0;
          rot = GetRotation (GetGameObject trigger)
      in case vec4_mul_quat (Vec4 (vx forwVec) (vy forwVec) (vz forwVec) 1) rot of
           Inl e \<Rightarrow> Inl e
         | Inr r \<Rightarrow>
             (let edgeVec = Vec3 (v4x r) (v4y r) (v4z r);
                  edgeVec = set_x (vx edgeVec * (- 1)) edgeVec;
                  edgeVec = set_z 0 edgeVec
              in Inr edgeVec))"

definition reflectedDirection :: "vec3 \<Rightarrow> vec3 \<Rightarrow> vec3" where
  "reflectedDirection rigiVelo edgeVec = set_z 0 (glm_reflect rigiVelo edgeVec)"

definition OnEnteredTrigger :: "BounceBehaviour \<Rightarrow> TriggerVolume \<Rightarrow> error + BounceBehaviour" where
  "OnEnteredTrigger b trigger =
     (case rigidOBJ b of
        None \<Rightarrow> Inr b
      | Some body \<Rightarrow>
          (case gameObj b of
             None \<Rightarrow> Inl NullPointer
           | Some g \<Rightarrow>
               if Name g \<noteq> ''Puck'' then Inr b
               else
                 (case edgeVector trigger of
                    Inl e \<Rightarrow> Inl e
                  | Inr edgeVec0 \<Rightarrow>
                      (let speed = glm_length (flatVelocity body)
                       in case glm_normalize (flatVelocity body) of
                            Inl e \<Rightarrow> Inl e
                          | Inr rigiVelo \<Rightarrow>
                              (case glm_normalize edgeVec0 of
                                 Inl e \<Rightarrow> Inl e
                               | Inr edgeVec \<Rightarrow>
                                   (let refVelo = smul (reflectedDirection rigiVelo edgeVec) (speed * 0.5);
                                        body' = ApplyImpulse refVelo (resetVelocity body)
                                    in case glm_normalize refVelo of
                                         Inl e \<Rightarrow> Inl e
                                       | Inr unitRef \<Rightarrow>
                                           Inr (b\<lparr>isInCollision := True,
                                                  rigidOBJ := Some body',
                                                  reflectionVelocity := refVelo,
                                                  repelVelocity := smul unitRef 10\<rparr>)))))))"

definition OnLeavingTrigger :: "BounceBehaviour \<Rightarrow> TriggerVolume \<Rightarrow> BounceBehaviour" where
  "OnLeavingTrigger b trigger = b\<lparr>isInCollision := False\<rparr>"

subsection \<open>The score loop of main.cpp\<close>

text \<open>
  The engine's \<^verbatim>\<open>Light\<close> structure with the three members the sources assign. \<^verbatim>\<open>Range\<close>
  carries a suffix, the name being taken by the range of a relation.
\<close>

record Light =
  Position :: vec3
  Color :: vec3
  Range_light :: float

definition black :: vec3 where
  "black = Vec3 0 0 0"

definition yellow :: vec3 where
  "yellow = Vec3 1 1 0"

text \<open>
  The state the score loop works on: the globals \<open>lScore\<close>, \<open>rScore\<close> and \<open>resetCheck\<close>,
  the vector \<^verbatim>\<open>scene->Lights\<close>, and the two objects the frame loop looks up as
  \<open>gObj_puck\<close> and \<open>rigid_puck\<close>. The counters are C++ \<^verbatim>\<open>int\<close>s; they are unbounded
  integers here, and every run of the loop keeps them between 0 and 4.

  \<open>colorWrites\<close> is a history variable, not a program variable: it records the subscript
  \<open>i\<close> of every executed assignment \<^verbatim>\<open>scene->Lights[i].Color = c\<close> of \<^verbatim>\<open>scoreCheck\<close> and
  \<^verbatim>\<open>lightReset\<close>, the latest first. No modelled function reads it.
\<close>

record game =
  lScore :: int
  rScore :: int
  resetCheck :: bool
  Lights :: "Light list"
  gObj_puck :: GameObject
  rigid_puck :: RigidBody
  colorWrites :: "int list"

text \<open>
  The assignments \<^verbatim>\<open>scene->Lights[i].Color = c\<close> and \<^verbatim>\<open>scene->Lights[i].Position = p\<close>.
  \<^verbatim>\<open>std::vector::operator[]\<close> does not check its subscript; a subscript outside the
  vector is the outcome \<open>OutOfRange\<close>.
\<close>

definition assignColor :: "int \<Rightarrow> vec3 \<Rightarrow> game \<Rightarrow> error + game" where
  "assignColor i c s =
     (if 0 \<le> i \<and> i < int (length (Lights s))
      then Inr (s\<lparr>Lights := (Lights s)[nat i := (Lights s ! nat i)\<lparr>Color := c\<rparr>],
                 colorWrites := i # colorWrites s\<rparr>)
      else Inl OutOfRange)"

definition assignPosition :: "int \<Rightarrow> vec3 \<Rightarrow> game \<Rightarrow> error + game" where
  "assignPosition i p s =
     (if 0 \<le> i \<and> i < int (length (Lights s))
      then Inr (s\<lparr>Lights := (Lights s)[nat i := (Lights s ! nat i)\<lparr>Position := p\<rparr>]\<rparr>)
      else Inl OutOfRange)"

text \<open>
  The lights as \<^verbatim>\<open>CreateScene\<close> leaves them (main.cpp lines 411-451): ten lights, every
  member of each assigned.
\<close>

definition CreateScene_Lights :: "Light list" where
  "CreateScene_Lights =
     [\<lparr>Position = Vec3 0 0 10, Color = Vec3 1 1 1, Range_light = 300\<rparr>,
      \<lparr>Position = Vec3 (- 14.840) 13.340 (- 6.560), Color = black, Range_light = 2\<rparr>,
      \<lparr>Position = Vec3 (- 14.720) (- 12.980) (- 6.620), Color = black, Range_light = 2\<rparr>,
      \<lparr>Position = Vec3 (- 4.460) 15.460 (- 6.590), Color = black, Range_light = 2\<rparr>,
      \<lparr>Position = Vec3 (- 4.450) (- 15.180) (- 6.600), Color = black, Range_light = 2\<rparr>,
      \<lparr>Position = Vec3 15.330 13.320 (- 6.600), Color = black, Range_light = 2\<rparr>,
      \<lparr>Position = Vec3 15.040 (- 13.320) (- 6.570), Color = black, Range_light = 2\<rparr>,
      \<lparr>Position = Vec3 4.350 15.380 (- 6.570), Color = black, Range_light = 2\<rparr>,
      \<lparr>Position = Vec3 4.540 (- 15.540) (- 6.570), Color = black, Range_light = 2\<rparr>,
      \<lparr>Position = Vec3 0 0 10, Color = Vec3 0.043 0.043 0, Range_light = - 13\<rparr>]"

text \<open>
  The state when the frame loop starts. \<^verbatim>\<open>CreateScene\<close> places the puck at \<open>(0, 0, 4)\<close>; its
  rotation is computed by engine code from Euler angles and is a parameter here. The body
  is taken to be at rest. The editor windows of the frame loop, which let a user edit or
  delete lights and reload the scene, are not modelled.
\<close>

definition initial_game :: "quat \<Rightarrow> game" where
  "initial_game puckRotation =
     \<lparr>lScore = 0, rScore = 0, resetCheck = False,
      Lights = CreateScene_Lights,
      gObj_puck = \<lparr>Name = ''Puck'', position = Vec3 0 0 4,
                   rotation = puckRotation\<rparr>,
      rigid_puck = \<lparr>linearVelocity = vec3_zero\<rparr>,
      colorWrites = []\<rparr>"

definition scoreCheck :: "bool \<Rightarrow> game \<Rightarrow> error + game" where
  "scoreCheck isLeft s =
     (if isLeft then
        (let s1 = s\<lparr>lScore := lScore s + 1\<rparr>
         in assignColor (lScore s1) yellow s1)
      else
        (let s1 = s\<lparr>rScore := rScore s + 1\<rparr>
         in assignColor (rScore s1 + 4) yellow s1))"

definition scoreCheckReset :: "game \<Rightarrow> game" where
  "scoreCheckReset s =
     (let s1 = (if lScore s \<ge> 4
                then s\<lparr>lScore := 0, rScore := 0, resetCheck := True\<rparr>
                else s)
      in if rScore s1 \<ge> 4
         then s1\<lparr>lScore := 0, rScore := 0, resetCheck := True\<rparr>
         else s1)"

text \<open>The loop \<^verbatim>\<open>for (int i = 1; i < 9; i++)\<close> of \<^verbatim>\<open>lightReset\<close>, started at \<open>i\<close>.\<close>

function lightReset_loop :: "int \<Rightarrow> game \<Rightarrow> error + game" where
  "lightReset_loop i s =
     (if i < 9 then
        (case assignColor i black s of
           Inl e \<Rightarrow> Inl e
         | Inr s' \<Rightarrow> lightReset_loop (i + 1) s')
      else Inr s)"
  by pat_completeness auto
termination
  by (relation "measure (\<lambda>(i, s). nat (9 - i))") auto

declare lightReset_loop.simps [simp del]

definition lightReset :: "game \<Rightarrow> error + game" where
  "lightReset s = lightReset_loop 1 s"

definition checkIsReseting :: "game \<Rightarrow> error + game" where
  "checkIsReseting s =
     (if resetCheck s = True then
        (let s1 = s\<lparr>gObj_puck := SetPostion (Vec3 0 0 4) (gObj_puck s)\<rparr>
         in case lightReset s1 of
              Inl e \<Rightarrow> Inl e
            | Inr s2 \<Rightarrow> Inr (s2\<lparr>resetCheck := False\<rparr>))
      else Inr s)"

text \<open>
  Goal detection (main.cpp lines 1414-1426). \<open>puckPos\<close> is read once, before both tests.
  The literal \<^verbatim>\<open>17.6f\<close> is the float nearest to \<open>17.6\<close>, slightly above it, and no float lies
  between the two: for a float \<open>x\<close> the tests \<^verbatim>\<open>x >= 17.6f\<close> and \<^verbatim>\<open>x <= -17.6f\<close> hold exactly
  when \<open>x \<ge> 17.6\<close> and \<open>x \<le> -17.6\<close> do. A position that is "exactly 17.6" in the program is
  the float \<^verbatim>\<open>17.6f\<close>, which the model writes \<open>17.6\<close>.
\<close>

definition goalDetection :: "game \<Rightarrow> error + game" where
  "goalDetection s =
     (let puckPos = GetPosition (gObj_puck s)
      in case (if vx puckPos \<le> - 17.6 then
                 (case scoreCheck False s of
                    Inl e \<Rightarrow> Inl e
                  | Inr s1 \<Rightarrow>
                      Inr (s1\<lparr>gObj_puck := SetPostion (Vec3 9.5 0 (- 1)) (gObj_puck s1),
                              rigid_puck := resetVelocity (rigid_puck s1)\<rparr>))
               else Inr s) of
           Inl e \<Rightarrow> Inl e
         | Inr s2 \<Rightarrow>
             if vx puckPos \<ge> 17.6 then
               (case scoreCheck True s2 of
                  Inl e \<Rightarrow> Inl e
                | Inr s3 \<Rightarrow>
                    Inr (s3\<lparr>gObj_puck := SetPostion (Vec3 (- 9.5) 0 (- 1)) (gObj_puck s3),
                            rigid_puck := resetVelocity (rigid_puck s3)\<rparr>))
             else Inr s2)"

text \<open>Line 1428: light 9 follows the puck.\<close>

definition puckLight :: "game \<Rightarrow> error + game" where
  "puckLight s =
     assignPosition 9
       (Vec3 (vx (GetPosition (gObj_puck s))) (vy (GetPosition (gObj_puck s)))
             (vz (GetPosition (gObj_puck s)) + 3)) s"

text \<open>
  Between the two reset checks and goal detection a frame runs the engine: component
  updates, physics with the trigger callbacks, and the input handling. What this does to
  the modelled state is to move the puck: the puck's position \<open>p\<close> and velocity \<open>v\<close> after
  it are parameters of the frame, so that every behaviour of the engine is covered.
\<close>

definition engineUpdate :: "vec3 \<Rightarrow> vec3 \<Rightarrow> game \<Rightarrow> game" where
  "engineUpdate p v s =
     s\<lparr>gObj_puck := (gObj_puck s)\<lparr>position := p\<rparr>,
       rigid_puck := (rigid_puck s)\<lparr>linearVelocity := v\<rparr>\<rparr>"

text \<open>
  One iteration of the game loop: \<^verbatim>\<open>checkIsReseting(); scoreCheckReset();\<close> (lines
  1137-1138), the engine, goal detection, the puck light.
\<close>

definition frame :: "vec3 \<Rightarrow> vec3 \<Rightarrow> game \<Rightarrow> error + game" where
  "frame p v s =
     (case checkIsReseting s of
        Inl e \<Rightarrow> Inl e
      | Inr s1 \<Rightarrow>
          (case goalDetection (engineUpdate p v (scoreCheckReset s1)) of
             Inl e \<Rightarrow> Inl e
           | Inr s2 \<Rightarrow> puckLight s2))"

fun run_frames :: "(vec3 \<times> vec3) list \<Rightarrow> game \<Rightarrow> error + game" where
  "run_frames [] s = Inr s"
| "run_frames ((p, v) # ins) s =
     (case frame p v s of
        Inl e \<Rightarrow> Inl e
      | Inr s' \<Rightarrow> run_frames ins s')"

text \<open>The states at the head of the game loop.\<close>

inductive reach :: "game \<Rightarrow> bool" where
  reach_init: "reach (initial_game puckRotation)"
| reach_frame: "reach s \<Longrightarrow> frame p v s = Inr s' \<Longrightarrow> reach s'"

subsection \<open>Predicates on the score state\<close>

text \<open>
  What holds at the head of every iteration of the game loop: ten lights, both counters
  between 0 and 4, and every recorded colour assignment at a subscript from 1 to 8.
\<close>

definition score_inv :: "game \<Rightarrow> bool" where
  "score_inv s \<longleftrightarrow>
     length (Lights s) = 10 \<and> 0 \<le> lScore s \<and> lScore s \<le> 4 \<and> 0 \<le> rScore s \<and> rScore s \<le> 4 \<and>
     (\<forall>i \<in> set (colorWrites s). 1 \<le> i \<and> i \<le> 8)"

definition lit :: "game \<Rightarrow> nat \<Rightarrow> bool" where
  "lit s i \<longleftrightarrow> Color (Lights s ! i) = yellow"

definition unlit :: "game \<Rightarrow> nat \<Rightarrow> bool" where
  "unlit s i \<longleftrightarrow> Color (Lights s ! i) = black"

text \<open>
  The goals in a sequence of frames, each frame given by the puck's position and velocity
  after the engine has run: a left goal where goal detection finds \<open>x \<ge> 17.6\<close>, a right goal
  where it finds \<open>x \<le> -17.6\<close>.
\<close>

definition leftGoals :: "(vec3 \<times> vec3) list \<Rightarrow> nat" where
  "leftGoals ins = length (filter (\<lambda>(p, v). vx p \<ge> 17.6) ins)"

definition rightGoals :: "(vec3 \<times> vec3) list \<Rightarrow> nat" where
  "rightGoals ins = length (filter (\<lambda>(p, v). vx p \<le> - 17.6) ins)"

text \<open>
  The start of a round: no goal counted, no reset pending, ten lights, the eight
  indicator lights unlit. \<open>pips n m\<close> is the state of the indicators after \<open>n\<close> left and \<open>m\<close>
  right goals of a round.
\<close>

definition fresh_round :: "game \<Rightarrow> bool" where
  "fresh_round s \<longleftrightarrow>
     lScore s = 0 \<and> rScore s = 0 \<and> \<not> resetCheck s \<and> length (Lights s) = 10 \<and>
     (\<forall>i \<in> {1..8}. unlit s i)"

definition pips :: "nat \<Rightarrow> nat \<Rightarrow> game \<Rightarrow> bool" where
  "pips n m s \<longleftrightarrow>
     lScore s = int n \<and> rScore s = int m \<and> \<not> resetCheck s \<and> length (Lights s) = 10 \<and>
     (\<forall>i \<in> {1..4}. Color (Lights s ! i) = (if i \<le> n then yellow else black)) \<and>
     (\<forall>i \<in> {5..8}. Color (Lights s ! i) = (if i \<le> m + 4 then yellow else black))"

subsection \<open>The spec's reflection law\<close>

text \<open>
  The impulse as the spec words it: the vector \<open>v - 2*dot(v,n)*n\<close> times
  \<open>0.5 * |original v|\<close>. It is compared below with what \<open>OnEnteredTrigger\<close> computes.
\<close>

definition spec_impulse :: "vec3 \<Rightarrow> vec3 \<Rightarrow> float \<Rightarrow> vec3" where
  "spec_impulse v n speed = smul (vsub v (smul n (2 * glm_dot v n))) (0.5 * speed)"

subsection \<open>Example inputs\<close>

text \<open>
  A boundary turned by half a turn about the z axis, whose inward normal is
  \<open>(0, -1, 0)\<close>, and a puck component whose body moves with velocity \<open>(3, 4, 7)\<close>; frame
  inputs with the puck on the right goal line, on the left goal line and in the field.
\<close>

definition example_edge :: TriggerVolume where
  "example_edge = \<lparr>triggerOwner = \<lparr>Name = ''Edge'', position = Vec3 0 10 0, rotation = Quat 0 0 0 1\<rparr>\<rparr>"

definition example_puck :: GameObject where
  "example_puck = \<lparr>Name = ''Puck'', position = Vec3 0 0 4, rotation = Quat 1 0 0 0\<rparr>"

definition example_bounce :: BounceBehaviour where
  "example_bounce =
     \<lparr>gameObj = Some example_puck,
      rigidOBJ = Some \<lparr>linearVelocity = Vec3 3 4 7\<rparr>,
      isInCollision = False,
      reflectionVelocity = vec3_zero,
      repelVelocity = vec3_zero\<rparr>"

definition goal_left :: "vec3 \<times> vec3" where
  "goal_left = (Vec3 17.6 0 (- 1), Vec3 2 0 0)"

definition goal_right :: "vec3 \<times> vec3" where
  "goal_right = (Vec3 (- 17.6) 0 (- 1), Vec3 (- 2) 0 0)"

definition no_goal :: "vec3 \<times> vec3" where
  "no_goal = (Vec3 3 1 (- 1), Vec3 1 1 0)"

text \<open>
  The state at the start of the game loop; the state five frames later when the first
  four frames each ended with a left goal and the fifth had none (the fourth pip is lit
  and the reset is pending); and the state between the two, at the end of the fourth
  frame.
\<close>

definition example_start :: game where
  "example_start = initial_game (Quat 1 0 0 0)"

definition example_pending :: game where
  "example_pending =
     \<lparr>lScore = 0, rScore = 0, resetCheck = True,
      Lights = [CreateScene_Lights ! 0,
                (CreateScene_Lights ! 1)\<lparr>Color := yellow\<rparr>,
                (CreateScene_Lights ! 2)\<lparr>Color := yellow\<rparr>,
                (CreateScene_Lights ! 3)\<lparr>Color := yellow\<rparr>,
                (CreateScene_Lights ! 4)\<lparr>Color := yellow\<rparr>,
                CreateScene_Lights ! 5, CreateScene_Lights ! 6,
                CreateScene_Lights ! 7, CreateScene_Lights ! 8,
                (CreateScene_Lights ! 9)\<lparr>Position := Vec3 3 1 2\<rparr>],
      gObj_puck = \<lparr>Name = ''Puck'', position = Vec3 3 1 (- 1), rotation = Quat 1 0 0 0\<rparr>,
      rigid_puck = \<lparr>linearVelocity = Vec3 1 1 0\<rparr>,
      colorWrites = [4, 3, 2, 1]\<rparr>"

definition example_won :: game where
  "example_won =
     \<lparr>lScore = 4, rScore = 0, resetCheck = False,
      Lights = [CreateScene_Lights ! 0,
                (CreateScene_Lights ! 1)\<lparr>Color := yellow\<rparr>,
                (CreateScene_Lights ! 2)\<lparr>Color := yellow\<rparr>,
                (CreateScene_Lights ! 3)\<lparr>Color := yellow\<rparr>,
                (CreateScene_Lights ! 4)\<lparr>Color := yellow\<rparr>,
                CreateScene_Lights ! 5, CreateScene_Lights ! 6,
                CreateScene_Lights ! 7, CreateScene_Lights ! 8,
                (CreateScene_Lights ! 9)\<lparr>Position := Vec3 (- 9.5) 0 2\<rparr>],
      gObj_puck = \<lparr>Name = ''Puck'', position = Vec3 (- 9.5) 0 (- 1), rotation = Quat 1 0 0 0\<rparr>,
      rigid_puck = \<lparr>linearVelocity = vec3_zero\<rparr>,
      colorWrites = [4, 3, 2, 1]\<rparr>"

text \<open>The two counters and the flag of a run's final state.\<close>

definition scoreboard :: "game \<Rightarrow> int \<times> int \<times> bool" where
  "scoreboard s = (lScore s, rScore s, resetCheck s)"

section \<open>Vector lemmas\<close>

lemma glm_dot_self_nonneg: "0 \<le> glm_dot a a"
  by (simp add: glm_dot_def)

lemma glm_dot_smul: "glm_dot (smul a k) (smul a k) = k * k * glm_dot a a"
  by (simp add: glm_dot_def smul_def algebra_simps)

lemma glm_normalize_Inr:
  "glm_normalize a = Inr v \<Longrightarrow> glm_dot a a \<noteq> 0 \<and> v = smul a (1 / sqrt (glm_dot a a))"
  by (auto simp: glm_normalize_def split: if_splits)

lemma glm_normalize_unit:
  assumes "glm_normalize a = Inr v"
  shows "glm_dot v v = 1"
proof -
  from assms have nz: "glm_dot a a \<noteq> 0" and v: "v = smul a (1 / sqrt (glm_dot a a))"
    using glm_normalize_Inr by blast+
  have pos: "0 < glm_dot a a"
    using nz glm_dot_self_nonneg [of a] by simp
  have "glm_dot v v = (1 / sqrt (glm_dot a a)) * (1 / sqrt (glm_dot a a)) * glm_dot a a"
    by (simp only: v glm_dot_smul)
  also have "\<dots> = glm_dot a a / (sqrt (glm_dot a a) * sqrt (glm_dot a a))"
    by simp
  also have "\<dots> = 1"
    using pos by simp
  finally show ?thesis .
qed

lemma glm_normalize_vz:
  "glm_normalize a = Inr v \<Longrightarrow> vz a = 0 \<Longrightarrow> vz v = 0"
  by (auto simp: glm_normalize_def smul_def split: if_splits)

lemma glm_reflect_formula:
  "glm_reflect v n = vsub v (smul n (2 * glm_dot v n))"
  by (simp add: glm_reflect_def vsub_def smul_def glm_dot_def algebra_simps)

lemma glm_reflect_vz:
  "vz v = 0 \<Longrightarrow> vz n = 0 \<Longrightarrow> vz (glm_reflect v n) = 0"
  by (simp add: glm_reflect_def vsub_def smul_def)

lemma set_z_id: "vz a = 0 \<Longrightarrow> set_z 0 a = a"
  by (cases a) (simp add: set_z_def)

lemma glm_dot_reflect:
  assumes "glm_dot n n = 1"
  shows "glm_dot (glm_reflect v n) (glm_reflect v n) = glm_dot v v"
proof -
  obtain a b c where v: "v = Vec3 a b c" by (cases v)
  obtain p q r where n: "n = Vec3 p q r" by (cases n)
  from assms have u: "p * p + q * q + r * r = 1"
    by (simp add: n glm_dot_def)
  define d where "d = p * a + q * b + r * c"
  have "glm_dot (glm_reflect v n) (glm_reflect v n)
        = (a - p * d * 2) * (a - p * d * 2) + (b - q * d * 2) * (b - q * d * 2)
          + (c - r * d * 2) * (c - r * d * 2)"
    by (simp add: v n glm_reflect_def glm_dot_def vsub_def smul_def d_def)
  also have "\<dots> = (a * a + b * b + c * c) - 4 * d * d + 4 * d * d * (p * p + q * q + r * r)"
    by (simp add: d_def algebra_simps)
  also have "\<dots> = a * a + b * b + c * c"
    by (simp add: u)
  finally show ?thesis
    by (simp add: v glm_dot_def)
qed

lemma flatVelocity_vz: "vz (flatVelocity body) = 0"
  by (simp add: flatVelocity_def set_z_def)

lemma edgeVector_vz: "edgeVector t = Inr e \<Longrightarrow> vz e = 0"
  by (auto simp: edgeVector_def Let_def set_z_def split: sum.splits)

section \<open>The bounce\<close>

lemma OnEnteredTrigger_puck:
  assumes body: "rigidOBJ b = Some body"
    and obj: "gameObj b = Some g"
    and name: "Name g = ''Puck''"
    and edge: "edgeVector trigger = Inr e"
    and nv: "glm_normalize (flatVelocity body) = Inr v"
    and nn: "glm_normalize e = Inr n"
  shows "\<exists>u. glm_normalize (smul (reflectedDirection v n) (glm_length (flatVelocity body) * 0.5)) = Inr u \<and>
     OnEnteredTrigger b trigger =
       Inr (b\<lparr>isInCollision := True,
              rigidOBJ := Some (ApplyImpulse (smul (reflectedDirection v n) (glm_length (flatVelocity body) * 0.5))
                                  (resetVelocity body)),
              reflectionVelocity := smul (reflectedDirection v n) (glm_length (flatVelocity body) * 0.5),
              repelVelocity := smul u 10\<rparr>)"
proof -
  let ?speed = "glm_length (flatVelocity body)"
  let ?r = "smul (reflectedDirection v n) (?speed * 0.5)"
  have zv: "vz v = 0"
    using nv flatVelocity_vz glm_normalize_vz by blast
  have zn: "vz n = 0"
    using nn edge edgeVector_vz glm_normalize_vz by blast
  have dir: "reflectedDirection v n = glm_reflect v n"
    by (simp add: reflectedDirection_def set_z_id glm_reflect_vz zv zn)
  have unit: "glm_dot (reflectedDirection v n) (reflectedDirection v n) = 1"
    using glm_dot_reflect [OF glm_normalize_unit [OF nn], of v] glm_normalize_unit [OF nv]
    by (simp add: dir)
  have "glm_dot (flatVelocity body) (flatVelocity body) \<noteq> 0"
    using nv glm_normalize_Inr by blast
  then have speed: "?speed \<noteq> 0"
    by (simp add: glm_length_def)
  have "glm_dot ?r ?r = (?speed * 0.5) * (?speed * 0.5)"
    by (simp only: glm_dot_smul unit mult_1_right)
  moreover have "(?speed * 0.5) * (?speed * 0.5) \<noteq> 0"
    using speed by simp
  ultimately have "glm_dot ?r ?r \<noteq> 0"
    by metis
  then obtain u where u: "glm_normalize ?r = Inr u"
    by (simp add: glm_normalize_def)
  show ?thesis
    using u by (simp add: OnEnteredTrigger_def body obj name edge nv nn Let_def)
qed

lemma example_edgeVector: "edgeVector example_edge = Inr (Vec3 0 (- 1) 0)"
  by (simp add: edgeVector_def example_edge_def GetRotation_def GetGameObject_def
      vec4_mul_quat_def quat_inverse_def quat_conjugate_def quat_dot_def quat_mul_vec4_def
      quat_mul_vec3_def glm_cross_def vadd_def smul_def set_x_def set_z_def Let_def)

lemma example_flatVelocity: "flatVelocity \<lparr>linearVelocity = Vec3 3 4 7\<rparr> = Vec3 3 4 0"
  by (simp add: flatVelocity_def GetVelocity_def set_z_def)

lemma example_normal: "glm_normalize (Vec3 0 (- 1) 0) = Inr (Vec3 0 (- 1) 0)"
  by (simp add: glm_normalize_def glm_dot_def smul_def)

lemma example_direction: "glm_normalize (Vec3 3 4 0) = Inr (Vec3 (3 / 5) (4 / 5) 0)"
  by (simp add: glm_normalize_def glm_dot_def smul_def)

text \<open>
  C1. On a trigger-enter event delivered to the component of an object named "Puck" with
  a resolved body, let \<open>v\<close> be the normalized flattened velocity and \<open>n\<close> the normalized
  flattened inward edge vector (both normalizations defined, that is, neither flattened
  vector is zero). Then the call returns; the reflected vector, as \<^verbatim>\<open>glm::reflect\<close> gives
  it and as it is after flattening again, is \<open>v - 2*dot(v,n)*n\<close>; and the impulse applied to
  the body after its velocity is reset, which is also cached in \<open>reflectionVelocity\<close>, is
  that vector times \<open>0.5\<close> times the length of the flattened velocity.
\<close>

theorem OnEnteredTrigger_reflection_law:
  assumes "rigidOBJ b = Some body" and "gameObj b = Some g" and "Name g = ''Puck''"
    and "edgeVector trigger = Inr e"
    and "glm_normalize (flatVelocity body) = Inr v"
    and "glm_normalize e = Inr n"
  shows "\<exists>b'. OnEnteredTrigger b trigger = Inr b' \<and>
           glm_reflect v n = vsub v (smul n (2 * glm_dot v n)) \<and>
           reflectedDirection v n = vsub v (smul n (2 * glm_dot v n)) \<and>
           reflectionVelocity b' = spec_impulse v n (glm_length (flatVelocity body)) \<and>
           rigidOBJ b' = Some (ApplyImpulse (spec_impulse v n (glm_length (flatVelocity body)))
                                 (resetVelocity body))"
proof -
  have zv: "vz v = 0"
    using assms(5) flatVelocity_vz glm_normalize_vz by blast
  have zn: "vz n = 0"
    using assms(4,6) edgeVector_vz glm_normalize_vz by blast
  have "reflectedDirection v n = glm_reflect v n"
    by (simp add: reflectedDirection_def set_z_id glm_reflect_vz zv zn)
  then have dir: "reflectedDirection v n = vsub v (smul n (2 * glm_dot v n))"
    by (simp only: glm_reflect_formula)
  from OnEnteredTrigger_puck [OF assms] obtain u where
    "OnEnteredTrigger b trigger =
       Inr (b\<lparr>isInCollision := True,
              rigidOBJ := Some (ApplyImpulse (smul (reflectedDirection v n) (glm_length (flatVelocity body) * 0.5))
                                  (resetVelocity body)),
              reflectionVelocity := smul (reflectedDirection v n) (glm_length (flatVelocity body) * 0.5),
              repelVelocity := smul u 10\<rparr>)"
    by blast
  then show ?thesis
    by (simp add: dir glm_reflect_formula spec_impulse_def)
qed

theorem OnEnteredTrigger_reflection_law_witness:
  "\<exists>b'. OnEnteredTrigger example_bounce example_edge = Inr b' \<and>
     reflectionVelocity b' = Vec3 (3 / 2) (- 2) 0 \<and>
     rigidOBJ b' = Some \<lparr>linearVelocity = Vec3 (3 / 2) (- 2) 0\<rparr>"
proof -
  have h1: "rigidOBJ example_bounce = Some \<lparr>linearVelocity = Vec3 3 4 7\<rparr>"
    and h2: "gameObj example_bounce = Some example_puck"
    and h3: "Name example_puck = ''Puck''"
    by (simp_all add: example_bounce_def example_puck_def)
  have h5: "glm_normalize (flatVelocity \<lparr>linearVelocity = Vec3 3 4 7\<rparr>) = Inr (Vec3 (3 / 5) (4 / 5) 0)"
    by (simp add: example_flatVelocity example_direction)
  have imp: "spec_impulse (Vec3 (3 / 5) (4 / 5) 0) (Vec3 0 (- 1) 0)
               (glm_length (flatVelocity \<lparr>linearVelocity = Vec3 3 4 7\<rparr>)) = Vec3 (3 / 2) (- 2) 0"
    by (simp add: spec_impulse_def example_flatVelocity glm_length_def glm_dot_def smul_def vsub_def)
  show ?thesis
    using OnEnteredTrigger_reflection_law [OF h1 h2 h3 example_edgeVector h5 example_normal]
    by (auto simp: imp ApplyImpulse_def resetVelocity_def vadd_def vec3_zero_def)
qed

text \<open>
  The length of the impulse. In the exact arithmetic of this embedding the reflected
  direction of a unit vector about a unit normal is again a unit vector
  (\<open>glm_dot_reflect\<close>). The program computes the normalizations, the reflection and the
  scaling in rounded binary32 arithmetic, which the embedding does not represent; no
  statement about the exact length of the impulse is made here.
\<close>

text \<open>
  C6. A component whose owning object is not named "Puck" ignores a trigger-enter event
  (it prints its diagnostic line and does nothing else): the call returns the component
  as it was, with \<open>isInCollision\<close>, \<open>reflectionVelocity\<close>,
  \<open>repelVelocity\<close> and the state of any body behind \<open>rigidOBJ\<close> unchanged. This holds for
  every component that points to such an owner, and in particular for one set up by
  \<open>Awake\<close> on such an owner.
\<close>

theorem OnEnteredTrigger_not_puck:
  assumes "Name g \<noteq> ''Puck''"
  shows "(gameObj b = Some g \<longrightarrow> OnEnteredTrigger b trigger = Inr b) \<and>
         OnEnteredTrigger (Awake g body b) trigger = Inr (Awake g body b)"
  using assms by (simp add: OnEnteredTrigger_def Awake_def Let_def split: option.splits)

theorem OnEnteredTrigger_not_puck_witness:
  "Name (triggerOwner example_edge) \<noteq> ''Puck'' \<and>
   OnEnteredTrigger (example_bounce\<lparr>gameObj := Some (triggerOwner example_edge)\<rparr>) example_edge
     = Inr (example_bounce\<lparr>gameObj := Some (triggerOwner example_edge)\<rparr>) \<and>
   OnEnteredTrigger (Awake (triggerOwner example_edge) None example_bounce) example_edge
     = Inr (Awake (triggerOwner example_edge) None example_bounce)"
proof -
  have h: "Name (triggerOwner example_edge) \<noteq> ''Puck''"
    by (simp add: example_edge_def)
  show ?thesis
    using h OnEnteredTrigger_not_puck [OF h, of "example_bounce\<lparr>gameObj := Some (triggerOwner example_edge)\<rparr>" example_edge None]
    by (simp add: Awake_def)
qed

section \<open>The score loop\<close>

lemma upt_1_5: "[1..<5] = [1, 2, 3, 4::nat]"
  by (simp add: upt_rec)

lemma upt_5_9: "[5..<9] = [5, 6, 7, 8::nat]"
  by (simp add: upt_rec)

lemma yellow_not_black: "yellow \<noteq> black"
  by (simp add: yellow_def black_def)

lemma checkIsReseting_idle: "\<not> resetCheck s \<Longrightarrow> checkIsReseting s = Inr s"
  by (simp add: checkIsReseting_def)

lemma goalDetection_none:
  "- 17.6 < vx (GetPosition (gObj_puck s)) \<Longrightarrow> vx (GetPosition (gObj_puck s)) < 17.6 \<Longrightarrow>
   goalDetection s = Inr s"
  by (simp add: goalDetection_def Let_def)

lemma goalDetection_right:
  assumes "vx (GetPosition (gObj_puck s)) \<le> - 17.6"
    and "0 \<le> rScore s + 5" and "rScore s + 5 < int (length (Lights s))"
  shows "goalDetection s =
     Inr (s\<lparr>rScore := rScore s + 1,
            Lights := (Lights s)[nat (rScore s + 5) := (Lights s ! nat (rScore s + 5))\<lparr>Color := yellow\<rparr>],
            colorWrites := (rScore s + 5) # colorWrites s,
            gObj_puck := SetPostion (Vec3 9.5 0 (- 1)) (gObj_puck s),
            rigid_puck := resetVelocity (rigid_puck s)\<rparr>)"
proof -
  have "\<not> 17.6 \<le> vx (GetPosition (gObj_puck s))"
    using assms(1) by simp
  then show ?thesis
    using assms by (simp add: goalDetection_def scoreCheck_def assignColor_def Let_def add.commute)
qed

lemma goalDetection_left:
  assumes "17.6 \<le> vx (GetPosition (gObj_puck s))"
    and "0 \<le> lScore s + 1" and "lScore s + 1 < int (length (Lights s))"
  shows "goalDetection s =
     Inr (s\<lparr>lScore := lScore s + 1,
            Lights := (Lights s)[nat (lScore s + 1) := (Lights s ! nat (lScore s + 1))\<lparr>Color := yellow\<rparr>],
            colorWrites := (lScore s + 1) # colorWrites s,
            gObj_puck := SetPostion (Vec3 (- 9.5) 0 (- 1)) (gObj_puck s),
            rigid_puck := resetVelocity (rigid_puck s)\<rparr>)"
proof -
  have "\<not> vx (GetPosition (gObj_puck s)) \<le> - 17.6"
    using assms(1) by simp
  then show ?thesis
    using assms by (simp add: goalDetection_def scoreCheck_def assignColor_def Let_def)
qed

lemmas frame_eval =
  frame_def checkIsReseting_def scoreCheckReset_def goalDetection_def scoreCheck_def
  assignColor_def assignPosition_def puckLight_def engineUpdate_def lightReset_def
  GetPosition_def SetPostion_def GetVelocity_def resetVelocity_def Let_def

lemma assignColor_Inr:
  "0 \<le> i \<Longrightarrow> i < int (length (Lights s)) \<Longrightarrow>
   assignColor i c s =
     Inr (s\<lparr>Lights := (Lights s)[nat i := (Lights s ! nat i)\<lparr>Color := c\<rparr>],
            colorWrites := i # colorWrites s\<rparr>)"
  by (simp add: assignColor_def)

lemma assignColor_bodies:
  "assignColor i c s = Inr s' \<Longrightarrow> rigid_puck s' = rigid_puck s \<and> gObj_puck s' = gObj_puck s"
  by (auto simp: assignColor_def split: if_splits)

lemma lightReset_loop_bodies:
  "lightReset_loop i s = Inr s' \<Longrightarrow> rigid_puck s' = rigid_puck s \<and> gObj_puck s' = gObj_puck s"
proof (induction i s rule: lightReset_loop.induct)
  case (1 i s)
  show ?case
  proof (cases "i < 9")
    case False
    with "1.prems" show ?thesis
      by (simp add: lightReset_loop.simps [of i s])
  next
    case True
    with "1.prems" obtain s1 where a: "assignColor i black s = Inr s1"
      and r: "lightReset_loop (i + 1) s1 = Inr s'"
      by (auto simp: lightReset_loop.simps [of i s] split: sum.splits)
    from "1.IH" [OF True a r] assignColor_bodies [OF a] show ?thesis
      by simp
  qed
qed

lemma lightReset_loop_result:
  "0 \<le> i \<Longrightarrow> 9 \<le> length (Lights s) \<Longrightarrow>
   \<exists>s'. lightReset_loop i s = Inr s' \<and>
     lScore s' = lScore s \<and> rScore s' = rScore s \<and> resetCheck s' = resetCheck s \<and>
     length (Lights s') = length (Lights s) \<and>
     (\<forall>j < length (Lights s). Lights s' ! j =
        (if i \<le> int j \<and> int j < 9 then (Lights s ! j)\<lparr>Color := black\<rparr> else Lights s ! j)) \<and>
     set (colorWrites s') \<subseteq> set (colorWrites s) \<union> {k. i \<le> k \<and> k < 9}"
proof (induction i s rule: lightReset_loop.induct)
  case (1 i s)
  show ?case
  proof (cases "i < 9")
    case False
    then show ?thesis
      by (auto simp: lightReset_loop.simps [of i s])
  next
    case True
    let ?s1 = "s\<lparr>Lights := (Lights s)[nat i := (Lights s ! nat i)\<lparr>Color := black\<rparr>],
                  colorWrites := i # colorWrites s\<rparr>"
    have a: "assignColor i black s = Inr ?s1"
      using True "1.prems" by (intro assignColor_Inr) auto
    have "0 \<le> i + 1" and "9 \<le> length (Lights ?s1)"
      using "1.prems" by auto
    from "1.IH" [OF True a this] obtain s' where
      run: "lightReset_loop (i + 1) ?s1 = Inr s'"
      and keep: "lScore s' = lScore s" "rScore s' = rScore s" "resetCheck s' = resetCheck s"
        "length (Lights s') = length (Lights s)"
      and lights: "\<forall>j < length (Lights s). Lights s' ! j =
          (if i + 1 \<le> int j \<and> int j < 9 then (Lights ?s1 ! j)\<lparr>Color := black\<rparr> else Lights ?s1 ! j)"
      and log: "set (colorWrites s') \<subseteq> set (colorWrites ?s1) \<union> {k. i + 1 \<le> k \<and> k < 9}"
      by auto
    have eq: "lightReset_loop i s = Inr s'"
      using True a run by (simp add: lightReset_loop.simps [of i s])
    have l: "\<forall>j < length (Lights s). Lights s' ! j =
        (if i \<le> int j \<and> int j < 9 then (Lights s ! j)\<lparr>Color := black\<rparr> else Lights s ! j)"
    proof (intro allI impI)
      fix j assume j: "j < length (Lights s)"
      show "Lights s' ! j =
        (if i \<le> int j \<and> int j < 9 then (Lights s ! j)\<lparr>Color := black\<rparr> else Lights s ! j)"
      proof (cases "j = nat i")
        case True
        then show ?thesis
          using lights j "1.prems" \<open>i < 9\<close> by (auto simp: nth_list_update)
      next
        case False
        then have "int j \<noteq> i" using "1.prems" by auto
        then show ?thesis
          using lights j False by (auto simp: nth_list_update)
      qed
    qed
    have w: "set (colorWrites s') \<subseteq> set (colorWrites s) \<union> {k. i \<le> k \<and> k < 9}"
      using log True by auto
    show ?thesis
      using eq keep l w by blast
  qed
qed

lemma checkIsReseting_fires:
  assumes "resetCheck s" and "9 \<le> length (Lights s)"
  shows "\<exists>s'. checkIsReseting s = Inr s' \<and>
     lScore s' = lScore s \<and> rScore s' = rScore s \<and> \<not> resetCheck s' \<and>
     gObj_puck s' = SetPostion (Vec3 0 0 4) (gObj_puck s) \<and> rigid_puck s' = rigid_puck s \<and>
     length (Lights s') = length (Lights s) \<and>
     (\<forall>j < length (Lights s). Lights s' ! j =
        (if 1 \<le> j \<and> j < 9 then (Lights s ! j)\<lparr>Color := black\<rparr> else Lights s ! j)) \<and>
     set (colorWrites s') \<subseteq> set (colorWrites s) \<union> {k. 1 \<le> k \<and> k \<le> 8}"
proof -
  let ?s1 = "s\<lparr>gObj_puck := SetPostion (Vec3 0 0 4) (gObj_puck s)\<rparr>"
  have "(0::int) \<le> 1" and "9 \<le> length (Lights ?s1)"
    using assms(2) by simp_all
  from lightReset_loop_result [OF this] obtain s2 where
    run: "lightReset_loop 1 ?s1 = Inr s2"
    and keep: "lScore s2 = lScore s" "rScore s2 = rScore s" "length (Lights s2) = length (Lights s)"
    and lights: "\<forall>j < length (Lights s). Lights s2 ! j =
        (if 1 \<le> int j \<and> int j < 9 then (Lights s ! j)\<lparr>Color := black\<rparr> else Lights s ! j)"
    and log: "set (colorWrites s2) \<subseteq> set (colorWrites s) \<union> {k. 1 \<le> k \<and> k < 9}"
    by auto
  from lightReset_loop_bodies [OF run] have bodies:
    "rigid_puck s2 = rigid_puck s" "gObj_puck s2 = SetPostion (Vec3 0 0 4) (gObj_puck s)"
    by simp_all
  have eq: "checkIsReseting s = Inr (s2\<lparr>resetCheck := False\<rparr>)"
    using assms(1) run by (simp add: checkIsReseting_def lightReset_def)
  have l: "\<forall>j < length (Lights s). Lights s2 ! j =
        (if 1 \<le> j \<and> j < 9 then (Lights s ! j)\<lparr>Color := black\<rparr> else Lights s ! j)"
    using lights by auto
  have w: "set (colorWrites s2) \<subseteq> set (colorWrites s) \<union> {k. 1 \<le> k \<and> k \<le> 8}"
    using log by auto
  show ?thesis
    using eq keep bodies l w by simp
qed

lemma goalDetection_velocity:
  assumes "goalDetection s = Inr s'"
    and "vx (GetPosition (gObj_puck s)) \<le> - 17.6 \<or> 17.6 \<le> vx (GetPosition (gObj_puck s))"
  shows "GetVelocity (rigid_puck s') = vec3_zero"
  using assms
  by (auto simp: goalDetection_def Let_def resetVelocity_def GetVelocity_def
      split: if_splits sum.splits)

lemma example_pending_run:
  "run_frames [goal_left, goal_left, goal_left, goal_left, no_goal] example_start = Inr example_pending"
  by (simp add: frame_eval goal_left_def no_goal_def example_start_def example_pending_def
      initial_game_def CreateScene_Lights_def)

text \<open>
  C3. In a state in which goal detection runs (ten lights, both counters from 0 to 3), a
  puck whose world X position is exactly \<open>-17.6\<close> gives a goal for the right side: \<open>rScore\<close>
  grows by one, the puck is placed at \<open>(9.5, 0, -1)\<close> and its velocity is reset to zero. At
  exactly \<open>17.6\<close> the left side scores: \<open>lScore\<close> grows by one, the puck is placed at
  \<open>(-9.5, 0, -1)\<close> with zero velocity. At \<open>-17.59\<close> and at \<open>17.59\<close> goal detection changes
  nothing.
\<close>

theorem goalDetection_boundary:
  assumes "length (Lights s) = 10"
    and "0 \<le> lScore s" and "lScore s < 4" and "0 \<le> rScore s" and "rScore s < 4"
  shows "(vx (GetPosition (gObj_puck s)) = - 17.6 \<longrightarrow>
            (\<exists>s'. goalDetection s = Inr s' \<and> rScore s' = rScore s + 1 \<and> lScore s' = lScore s \<and>
                  GetPosition (gObj_puck s') = Vec3 9.5 0 (- 1) \<and>
                  GetVelocity (rigid_puck s') = vec3_zero)) \<and>
         (vx (GetPosition (gObj_puck s)) = 17.6 \<longrightarrow>
            (\<exists>s'. goalDetection s = Inr s' \<and> lScore s' = lScore s + 1 \<and> rScore s' = rScore s \<and>
                  GetPosition (gObj_puck s') = Vec3 (- 9.5) 0 (- 1) \<and>
                  GetVelocity (rigid_puck s') = vec3_zero)) \<and>
         (vx (GetPosition (gObj_puck s)) = - 17.59 \<longrightarrow> goalDetection s = Inr s) \<and>
         (vx (GetPosition (gObj_puck s)) = 17.59 \<longrightarrow> goalDetection s = Inr s)"
proof (intro conjI impI)
  assume x: "vx (GetPosition (gObj_puck s)) = - 17.6"
  have "vx (GetPosition (gObj_puck s)) \<le> - 17.6"
    by (simp add: x)
  from goalDetection_right [OF this] assms
  show "\<exists>s'. goalDetection s = Inr s' \<and> rScore s' = rScore s + 1 \<and> lScore s' = lScore s \<and>
          GetPosition (gObj_puck s') = Vec3 9.5 0 (- 1) \<and> GetVelocity (rigid_puck s') = vec3_zero"
    by (simp add: GetPosition_def SetPostion_def GetVelocity_def resetVelocity_def)
next
  assume x: "vx (GetPosition (gObj_puck s)) = 17.6"
  have "17.6 \<le> vx (GetPosition (gObj_puck s))"
    by (simp add: x)
  from goalDetection_left [OF this] assms
  show "\<exists>s'. goalDetection s = Inr s' \<and> lScore s' = lScore s + 1 \<and> rScore s' = rScore s \<and>
          GetPosition (gObj_puck s') = Vec3 (- 9.5) 0 (- 1) \<and> GetVelocity (rigid_puck s') = vec3_zero"
    by (simp add: GetPosition_def SetPostion_def GetVelocity_def resetVelocity_def)
next
  assume x: "vx (GetPosition (gObj_puck s)) = - 17.59"
  show "goalDetection s = Inr s"
    by (rule goalDetection_none) (simp_all add: x)
next
  assume x: "vx (GetPosition (gObj_puck s)) = 17.59"
  show "goalDetection s = Inr s"
    by (rule goalDetection_none) (simp_all add: x)
qed

theorem goalDetection_boundary_witness:
  "(\<exists>s'. goalDetection (engineUpdate (Vec3 (- 17.6) 0 (- 1)) (Vec3 (- 2) 0 0) example_start) = Inr s' \<and>
       rScore s' = 1 \<and> lScore s' = 0 \<and> GetPosition (gObj_puck s') = Vec3 9.5 0 (- 1) \<and>
       GetVelocity (rigid_puck s') = vec3_zero) \<and>
   (\<exists>s'. goalDetection (engineUpdate (Vec3 17.6 0 (- 1)) (Vec3 2 0 0) example_start) = Inr s' \<and>
       lScore s' = 1 \<and> rScore s' = 0 \<and> GetPosition (gObj_puck s') = Vec3 (- 9.5) 0 (- 1) \<and>
       GetVelocity (rigid_puck s') = vec3_zero) \<and>
   goalDetection (engineUpdate (Vec3 (- 17.59) 0 (- 1)) (Vec3 (- 2) 0 0) example_start)
     = Inr (engineUpdate (Vec3 (- 17.59) 0 (- 1)) (Vec3 (- 2) 0 0) example_start) \<and>
   goalDetection (engineUpdate (Vec3 17.59 0 (- 1)) (Vec3 2 0 0) example_start)
     = Inr (engineUpdate (Vec3 17.59 0 (- 1)) (Vec3 2 0 0) example_start)"
proof -
  have h: "length (Lights (engineUpdate p v example_start)) = 10"
    "0 \<le> lScore (engineUpdate p v example_start)" "lScore (engineUpdate p v example_start) < 4"
    "0 \<le> rScore (engineUpdate p v example_start)" "rScore (engineUpdate p v example_start) < 4"
    for p v
    by (simp_all add: engineUpdate_def example_start_def initial_game_def CreateScene_Lights_def)
  have x: "vx (GetPosition (gObj_puck (engineUpdate p v example_start))) = vx p" for p v
    by (simp add: engineUpdate_def GetPosition_def)
  have s: "lScore (engineUpdate p v example_start) = 0" "rScore (engineUpdate p v example_start) = 0" for p v
    by (simp_all add: engineUpdate_def example_start_def initial_game_def)
  show ?thesis
    using goalDetection_boundary [OF h, of "Vec3 (- 17.6) 0 (- 1)" "Vec3 (- 2) 0 0"]
      goalDetection_boundary [OF h, of "Vec3 17.6 0 (- 1)" "Vec3 2 0 0"]
      goalDetection_boundary [OF h, of "Vec3 (- 17.59) 0 (- 1)" "Vec3 (- 2) 0 0"]
      goalDetection_boundary [OF h, of "Vec3 17.59 0 (- 1)" "Vec3 2 0 0"]
    by (simp add: x s)
qed

text \<open>
  C7. When \<open>resetCheck\<close> is set (and the lights vector holds the indicator lights, at least
  nine elements), \<open>checkIsReseting\<close> returns with the puck at the centre position
  \<open>(0, 0, 4)\<close>, every light from 1 to 8 black and the flag cleared; a second call then
  changes nothing, so the reset is consumed once.
\<close>

theorem checkIsReseting_consumes_reset:
  assumes "resetCheck s" and "9 \<le> length (Lights s)"
  shows "\<exists>s'. checkIsReseting s = Inr s' \<and>
           GetPosition (gObj_puck s') = Vec3 0 0 4 \<and>
           (\<forall>i \<in> {1..8}. Color (Lights s' ! i) = black) \<and>
           \<not> resetCheck s' \<and>
           checkIsReseting s' = Inr s'"
proof -
  from checkIsReseting_fires [OF assms] obtain s' where
    eq: "checkIsReseting s = Inr s'"
    and flag: "\<not> resetCheck s'"
    and pos: "gObj_puck s' = SetPostion (Vec3 0 0 4) (gObj_puck s)"
    and lights: "\<forall>j < length (Lights s). Lights s' ! j =
        (if 1 \<le> j \<and> j < 9 then (Lights s ! j)\<lparr>Color := black\<rparr> else Lights s ! j)"
    by blast
  have "Color (Lights s' ! i) = black" if "i \<in> {1..8}" for i
  proof -
    from that have "i < length (Lights s)" and "1 \<le> i \<and> i < 9"
      using assms(2) by auto
    with lights show ?thesis by simp
  qed
  moreover have "GetPosition (gObj_puck s') = Vec3 0 0 4"
    by (simp add: pos GetPosition_def SetPostion_def)
  moreover have "checkIsReseting s' = Inr s'"
    using flag by (rule checkIsReseting_idle)
  ultimately show ?thesis
    using eq flag by blast
qed

theorem checkIsReseting_consumes_reset_witness:
  "resetCheck example_pending \<and> 9 \<le> length (Lights example_pending) \<and>
   (\<exists>s'. checkIsReseting example_pending = Inr s' \<and>
      GetPosition (gObj_puck s') = Vec3 0 0 4 \<and>
      Color (Lights s' ! 4) = black \<and>
      \<not> resetCheck s' \<and>
      checkIsReseting s' = Inr s')"
proof -
  have h: "resetCheck example_pending" "9 \<le> length (Lights example_pending)"
    by (simp_all add: example_pending_def)
  from checkIsReseting_consumes_reset [OF h] show ?thesis
    using h by auto
qed

text \<open>
  C8. Without a pending reset \<open>checkIsReseting\<close> returns the state as it was: no position,
  no light and no flag changes.
\<close>

theorem checkIsReseting_no_pending_reset:
  "\<not> resetCheck s \<Longrightarrow> checkIsReseting s = Inr s"
  by (simp add: checkIsReseting_def)

theorem checkIsReseting_no_pending_reset_witness:
  "\<not> resetCheck example_start \<and> checkIsReseting example_start = Inr example_start"
proof -
  have h: "\<not> resetCheck example_start"
    by (simp add: example_start_def initial_game_def)
  from checkIsReseting_no_pending_reset [OF h] h show ?thesis
    by simp
qed

text \<open>
  C10. Whenever \<open>checkIsReseting\<close> returns, the velocity of the puck's body is what it
  was, also when the pending reset moved the puck to \<open>(0, 0, 4)\<close>; goal detection, when it
  finds a goal, leaves the body with zero velocity.
\<close>

theorem checkIsReseting_keeps_velocity:
  "(checkIsReseting s = Inr s' \<longrightarrow>
      GetVelocity (rigid_puck s') = GetVelocity (rigid_puck s) \<and>
      (resetCheck s \<longrightarrow> GetPosition (gObj_puck s') = Vec3 0 0 4)) \<and>
   (goalDetection s = Inr s'' \<and>
    (vx (GetPosition (gObj_puck s)) \<le> - 17.6 \<or> 17.6 \<le> vx (GetPosition (gObj_puck s))) \<longrightarrow>
      GetVelocity (rigid_puck s'') = vec3_zero)"
proof (intro conjI impI)
  assume c: "checkIsReseting s = Inr s'"
  show "GetVelocity (rigid_puck s') = GetVelocity (rigid_puck s)"
  proof (cases "resetCheck s")
    case False
    with c show ?thesis
      by (simp add: checkIsReseting_def)
  next
    case True
    with c obtain s2 where r: "lightReset_loop 1 (s\<lparr>gObj_puck := SetPostion (Vec3 0 0 4) (gObj_puck s)\<rparr>) = Inr s2"
      and s': "s' = s2\<lparr>resetCheck := False\<rparr>"
      by (auto simp: checkIsReseting_def lightReset_def Let_def split: sum.splits)
    from lightReset_loop_bodies [OF r] s' show ?thesis
      by simp
  qed
next
  assume c: "checkIsReseting s = Inr s'" and t: "resetCheck s"
  from c t obtain s2 where r: "lightReset_loop 1 (s\<lparr>gObj_puck := SetPostion (Vec3 0 0 4) (gObj_puck s)\<rparr>) = Inr s2"
    and s': "s' = s2\<lparr>resetCheck := False\<rparr>"
    by (auto simp: checkIsReseting_def lightReset_def Let_def split: sum.splits)
  from lightReset_loop_bodies [OF r] s' show "GetPosition (gObj_puck s') = Vec3 0 0 4"
    by (simp add: GetPosition_def SetPostion_def)
next
  assume "goalDetection s = Inr s'' \<and>
    (vx (GetPosition (gObj_puck s)) \<le> - 17.6 \<or> 17.6 \<le> vx (GetPosition (gObj_puck s)))"
  then show "GetVelocity (rigid_puck s'') = vec3_zero"
    using goalDetection_velocity by blast
qed

theorem checkIsReseting_keeps_velocity_witness:
  "(\<exists>s'. checkIsReseting example_pending = Inr s' \<and>
      GetVelocity (rigid_puck s') = Vec3 1 1 0 \<and> GetPosition (gObj_puck s') = Vec3 0 0 4) \<and>
   (\<exists>s''. goalDetection (engineUpdate (Vec3 17.6 0 (- 1)) (Vec3 2 0 0) example_start) = Inr s'' \<and>
      GetVelocity (rigid_puck s'') = vec3_zero)"
proof -
  have h: "resetCheck example_pending" "9 \<le> length (Lights example_pending)"
    by (simp_all add: example_pending_def)
  from checkIsReseting_fires [OF h] obtain s' where
    c: "checkIsReseting example_pending = Inr s'"
    by blast
  have v: "GetVelocity (rigid_puck example_pending) = Vec3 1 1 0"
    by (simp add: example_pending_def GetVelocity_def)
  let ?s = "engineUpdate (Vec3 17.6 0 (- 1)) (Vec3 2 0 0) example_start"
  have x: "17.6 \<le> vx (GetPosition (gObj_puck ?s))"
    by (simp add: engineUpdate_def GetPosition_def)
  have "0 \<le> lScore ?s + 1" "lScore ?s + 1 < int (length (Lights ?s))"
    by (simp_all add: engineUpdate_def example_start_def initial_game_def CreateScene_Lights_def)
  from goalDetection_left [OF x this] obtain s'' where
    g: "goalDetection ?s = Inr s''"
    by blast
  show ?thesis
    using checkIsReseting_keeps_velocity [where s = example_pending and s' = s']
      checkIsReseting_keeps_velocity [where s = ?s and s'' = s''] c g h(1) v x
    by simp
qed

lemma scoreCheckReset_scores:
  "lScore (scoreCheckReset s) = (if 4 \<le> lScore s \<or> 4 \<le> rScore s then 0 else lScore s)"
  "rScore (scoreCheckReset s) = (if 4 \<le> lScore s \<or> 4 \<le> rScore s then 0 else rScore s)"
  "resetCheck (scoreCheckReset s) = (resetCheck s \<or> 4 \<le> lScore s \<or> 4 \<le> rScore s)"
  by (auto simp: scoreCheckReset_def Let_def)

lemma scoreCheckReset_rest:
  "Lights (scoreCheckReset s) = Lights s"
  "colorWrites (scoreCheckReset s) = colorWrites s"
  "gObj_puck (scoreCheckReset s) = gObj_puck s"
  "rigid_puck (scoreCheckReset s) = rigid_puck s"
  by (simp_all add: scoreCheckReset_def Let_def)

lemma scoreCheckReset_idle:
  "lScore s < 4 \<Longrightarrow> rScore s < 4 \<Longrightarrow> scoreCheckReset s = s"
  by (simp add: scoreCheckReset_def)

lemma engineUpdate_fields:
  "lScore (engineUpdate p v s) = lScore s" "rScore (engineUpdate p v s) = rScore s"
  "resetCheck (engineUpdate p v s) = resetCheck s" "Lights (engineUpdate p v s) = Lights s"
  "colorWrites (engineUpdate p v s) = colorWrites s"
  "vx (GetPosition (gObj_puck (engineUpdate p v s))) = vx p"
  by (simp_all add: engineUpdate_def GetPosition_def)

lemma puckLight_Inr:
  "9 < length (Lights s) \<Longrightarrow>
   \<exists>s'. puckLight s = Inr s' \<and> lScore s' = lScore s \<and> rScore s' = rScore s \<and>
     resetCheck s' = resetCheck s \<and> colorWrites s' = colorWrites s \<and>
     length (Lights s') = length (Lights s) \<and>
     (\<forall>j < length (Lights s). Color (Lights s' ! j) = Color (Lights s ! j))"
  by (auto simp: puckLight_def assignPosition_def nth_list_update)

lemma goal_phase:
  assumes len: "length (Lights s) = 10"
    and l: "0 \<le> lScore s" "lScore s \<le> 3" and r: "0 \<le> rScore s" "rScore s \<le> 3"
  shows "\<exists>s'. (case goalDetection (engineUpdate p v s) of Inl e \<Rightarrow> Inl e | Inr s2 \<Rightarrow> puckLight s2) = Inr s' \<and>
     length (Lights s') = 10 \<and> resetCheck s' = resetCheck s \<and>
     lScore s' = lScore s + (if 17.6 \<le> vx p then 1 else 0) \<and>
     rScore s' = rScore s + (if vx p \<le> - 17.6 then 1 else 0) \<and>
     colorWrites s' =
       (if 17.6 \<le> vx p then [lScore s + 1] else if vx p \<le> - 17.6 then [rScore s + 5] else [])
       @ colorWrites s \<and>
     (\<forall>j < 10. Color (Lights s' ! j) =
        (if 17.6 \<le> vx p \<and> j = nat (lScore s + 1) \<or> vx p \<le> - 17.6 \<and> j = nat (rScore s + 5)
         then yellow else Color (Lights s ! j)))"
proof -
  let ?e = "engineUpdate p v s"
  consider (left) "17.6 \<le> vx p" | (right) "vx p \<le> - 17.6" | (none) "- 17.6 < vx p" "vx p < 17.6"
    by linarith
  then show ?thesis
  proof cases
    case left
    then have nr: "\<not> vx p \<le> - 17.6" by simp
    have x: "17.6 \<le> vx (GetPosition (gObj_puck ?e))"
      using left by (simp add: engineUpdate_fields)
    have "0 \<le> lScore ?e + 1" "lScore ?e + 1 < int (length (Lights ?e))"
      using len l by (simp_all add: engineUpdate_fields)
    note g = goalDetection_left [OF x this]
    let ?g = "?e\<lparr>lScore := lScore ?e + 1,
            Lights := (Lights ?e)[nat (lScore ?e + 1) := (Lights ?e ! nat (lScore ?e + 1))\<lparr>Color := yellow\<rparr>],
            colorWrites := (lScore ?e + 1) # colorWrites ?e,
            gObj_puck := SetPostion (Vec3 (- 9.5) 0 (- 1)) (gObj_puck ?e),
            rigid_puck := resetVelocity (rigid_puck ?e)\<rparr>"
    have "9 < length (Lights ?g)"
      using len by (simp add: engineUpdate_fields)
    from puckLight_Inr [OF this] obtain s' where
      p: "puckLight ?g = Inr s'" "lScore s' = lScore ?g" "rScore s' = rScore ?g"
        "resetCheck s' = resetCheck ?g" "colorWrites s' = colorWrites ?g"
        "length (Lights s') = length (Lights ?g)"
        "\<forall>j < length (Lights ?g). Color (Lights s' ! j) = Color (Lights ?g ! j)"
      by blast
    have "\<forall>j < 10. Color (Lights s' ! j) =
        (if j = nat (lScore s + 1) then yellow else Color (Lights s ! j))"
      using p(7) len by (auto simp: engineUpdate_fields nth_list_update)
    then show ?thesis
      using g p(1-6) left nr len by (simp add: engineUpdate_fields)
  next
    case right
    then have nl: "\<not> 17.6 \<le> vx p" by simp
    have x: "vx (GetPosition (gObj_puck ?e)) \<le> - 17.6"
      using right by (simp add: engineUpdate_fields)
    have "0 \<le> rScore ?e + 5" "rScore ?e + 5 < int (length (Lights ?e))"
      using len r by (simp_all add: engineUpdate_fields)
    note g = goalDetection_right [OF x this]
    let ?g = "?e\<lparr>rScore := rScore ?e + 1,
            Lights := (Lights ?e)[nat (rScore ?e + 5) := (Lights ?e ! nat (rScore ?e + 5))\<lparr>Color := yellow\<rparr>],
            colorWrites := (rScore ?e + 5) # colorWrites ?e,
            gObj_puck := SetPostion (Vec3 9.5 0 (- 1)) (gObj_puck ?e),
            rigid_puck := resetVelocity (rigid_puck ?e)\<rparr>"
    have "9 < length (Lights ?g)"
      using len by (simp add: engineUpdate_fields)
    from puckLight_Inr [OF this] obtain s' where
      p: "puckLight ?g = Inr s'" "lScore s' = lScore ?g" "rScore s' = rScore ?g"
        "resetCheck s' = resetCheck ?g" "colorWrites s' = colorWrites ?g"
        "length (Lights s') = length (Lights ?g)"
        "\<forall>j < length (Lights ?g). Color (Lights s' ! j) = Color (Lights ?g ! j)"
      by blast
    have "\<forall>j < 10. Color (Lights s' ! j) =
        (if j = nat (rScore s + 5) then yellow else Color (Lights s ! j))"
      using p(7) len by (auto simp: engineUpdate_fields nth_list_update)
    then show ?thesis
      using g p(1-6) right nl len by (simp add: engineUpdate_fields)
  next
    case none
    then have n: "\<not> 17.6 \<le> vx p" "\<not> vx p \<le> - 17.6" by simp_all
    have g: "goalDetection ?e = Inr ?e"
      using none by (intro goalDetection_none) (simp_all add: engineUpdate_fields)
    have "9 < length (Lights ?e)"
      using len by (simp add: engineUpdate_fields)
    from puckLight_Inr [OF this] obtain s' where
      p: "puckLight ?e = Inr s'" "lScore s' = lScore ?e" "rScore s' = rScore ?e"
        "resetCheck s' = resetCheck ?e" "colorWrites s' = colorWrites ?e"
        "length (Lights s') = length (Lights ?e)"
        "\<forall>j < length (Lights ?e). Color (Lights s' ! j) = Color (Lights ?e ! j)"
      by blast
    show ?thesis
      using g p n len by (simp add: engineUpdate_fields)
  qed
qed

lemma example_won_run:
  "run_frames [goal_left, goal_left, goal_left, goal_left] example_start = Inr example_won"
  by (simp add: frame_eval goal_left_def example_start_def example_won_def
      initial_game_def CreateScene_Lights_def)

lemma frame_step:
  assumes len: "length (Lights s) = 10"
    and sc: "0 \<le> lScore s" "lScore s \<le> 4" "0 \<le> rScore s" "rScore s \<le> 4"
  shows "\<exists>s1 s'. checkIsReseting s = Inr s1 \<and> frame p v s = Inr s' \<and>
     lScore s1 = lScore s \<and> rScore s1 = rScore s \<and>
     length (Lights s') = 10 \<and>
     resetCheck s' = resetCheck (scoreCheckReset s1) \<and>
     resetCheck (scoreCheckReset s1) = (4 \<le> lScore s \<or> 4 \<le> rScore s) \<and>
     lScore s' = lScore (scoreCheckReset s1) + (if 17.6 \<le> vx p then 1 else 0) \<and>
     rScore s' = rScore (scoreCheckReset s1) + (if vx p \<le> - 17.6 then 1 else 0) \<and>
     set (colorWrites s') \<subseteq> set (colorWrites s) \<union> {k. 1 \<le> k \<and> k \<le> 8}"
proof -
  have "\<exists>s1. checkIsReseting s = Inr s1 \<and> lScore s1 = lScore s \<and> rScore s1 = rScore s \<and>
      \<not> resetCheck s1 \<and> length (Lights s1) = 10 \<and>
      set (colorWrites s1) \<subseteq> set (colorWrites s) \<union> {k. 1 \<le> k \<and> k \<le> 8}"
  proof (cases "resetCheck s")
    case True
    moreover have "9 \<le> length (Lights s)"
      using len by simp
    ultimately show ?thesis
      using checkIsReseting_fires [of s] len by auto
  next
    case False
    then show ?thesis
      using checkIsReseting_idle [of s] len by auto
  qed
  then obtain s1 where c: "checkIsReseting s = Inr s1"
    and s1: "lScore s1 = lScore s" "rScore s1 = rScore s" "\<not> resetCheck s1"
      "length (Lights s1) = 10"
    and w1: "set (colorWrites s1) \<subseteq> set (colorWrites s) \<union> {k. 1 \<le> k \<and> k \<le> 8}"
    by blast
  let ?s2 = "scoreCheckReset s1"
  have b: "length (Lights ?s2) = 10" "0 \<le> lScore ?s2" "lScore ?s2 \<le> 3"
    "0 \<le> rScore ?s2" "rScore ?s2 \<le> 3"
    using s1 sc by (auto simp: scoreCheckReset_scores scoreCheckReset_rest)
  from goal_phase [OF b, of p v] obtain s' where
    g: "(case goalDetection (engineUpdate p v ?s2) of Inl e \<Rightarrow> Inl e | Inr s2 \<Rightarrow> puckLight s2) = Inr s'"
    and s': "length (Lights s') = 10" "resetCheck s' = resetCheck ?s2"
      "lScore s' = lScore ?s2 + (if 17.6 \<le> vx p then 1 else 0)"
      "rScore s' = rScore ?s2 + (if vx p \<le> - 17.6 then 1 else 0)"
    and w: "colorWrites s' =
       (if 17.6 \<le> vx p then [lScore ?s2 + 1] else if vx p \<le> - 17.6 then [rScore ?s2 + 5] else [])
       @ colorWrites ?s2"
    by blast
  have f: "frame p v s = Inr s'"
    using c g by (simp add: frame_def)
  have flag: "resetCheck ?s2 = (4 \<le> lScore s \<or> 4 \<le> rScore s)"
    using s1 by (simp add: scoreCheckReset_scores)
  have "set (colorWrites s') \<subseteq> set (colorWrites s1) \<union> {k. 1 \<le> k \<and> k \<le> 8}"
    using w b by (auto simp: scoreCheckReset_rest split: if_splits)
  with w1 have log: "set (colorWrites s') \<subseteq> set (colorWrites s) \<union> {k. 1 \<le> k \<and> k \<le> 8}"
    by blast
  show ?thesis
    using c f s1(1,2) s' flag log by blast
qed

lemma frame_score_inv:
  assumes "score_inv s"
  shows "\<exists>s'. frame p v s = Inr s' \<and> score_inv s'"
proof -
  from assms have len: "length (Lights s) = 10"
    and sc: "0 \<le> lScore s" "lScore s \<le> 4" "0 \<le> rScore s" "rScore s \<le> 4"
    and w: "\<forall>i \<in> set (colorWrites s). 1 \<le> i \<and> i \<le> 8"
    by (simp_all add: score_inv_def)
  from frame_step [OF len sc, of p v] obtain s1 s' where
    f: "frame p v s = Inr s'"
    and s1: "lScore s1 = lScore s" "rScore s1 = rScore s"
    and s': "length (Lights s') = 10"
      "lScore s' = lScore (scoreCheckReset s1) + (if 17.6 \<le> vx p then 1 else 0)"
      "rScore s' = rScore (scoreCheckReset s1) + (if vx p \<le> - 17.6 then 1 else 0)"
      "set (colorWrites s') \<subseteq> set (colorWrites s) \<union> {k. 1 \<le> k \<and> k \<le> 8}"
    by blast
  have "0 \<le> lScore s' \<and> lScore s' \<le> 4 \<and> 0 \<le> rScore s' \<and> rScore s' \<le> 4"
    using s'(2,3) s1 sc by (auto simp: scoreCheckReset_scores)
  moreover have "\<forall>i \<in> set (colorWrites s'). 1 \<le> i \<and> i \<le> 8"
    using s'(4) w by auto
  ultimately have "score_inv s'"
    using s'(1) by (simp add: score_inv_def)
  with f show ?thesis by blast
qed

lemma initial_score_inv: "score_inv (initial_game q)"
  by (simp add: score_inv_def initial_game_def CreateScene_Lights_def)

lemma reach_score_inv: "reach s \<Longrightarrow> score_inv s"
proof (induction rule: reach.induct)
  case (reach_init q)
  show ?case by (rule initial_score_inv)
next
  case (reach_frame s p v s')
  from frame_score_inv [OF reach_frame.IH, of p v] reach_frame.hyps(2) show ?case
    by auto
qed

lemma run_frames_reach:
  "reach s \<Longrightarrow> run_frames ins s = Inr s' \<Longrightarrow> reach s'"
proof (induction ins arbitrary: s)
  case Nil
  then show ?case by simp
next
  case (Cons a ins)
  obtain p v where a: "a = (p, v)" by (cases a)
  from Cons.prems(2) obtain s1 where f: "frame p v s = Inr s1" and r: "run_frames ins s1 = Inr s'"
    by (auto simp: a split: sum.splits)
  from Cons.prems(1) f have "reach s1"
    by (rule reach.reach_frame)
  from Cons.IH [OF this r] show ?case .
qed

lemma reach_example_won: "reach example_won"
  using run_frames_reach [OF _ example_won_run] reach.reach_init [of "Quat 1 0 0 0"]
  by (simp add: example_start_def)

lemma reach_example_pending: "reach example_pending"
  using run_frames_reach [OF _ example_pending_run] reach.reach_init [of "Quat 1 0 0 0"]
  by (simp add: example_start_def)

text \<open>
  C9. In every state at the head of the game loop that can be reached from the state
  \<open>CreateScene\<close> leaves, the lights vector has ten elements, every colour assignment that
  \<open>scoreCheck\<close> and \<open>lightReset\<close> have executed so far used a subscript from 1 to 8, inside
  the vector, and the next frame again runs without a subscript out of range, whatever
  the engine does to the puck.
\<close>

theorem light_writes_in_range:
  assumes "reach s"
  shows "length (Lights s) = 10 \<and>
         (\<forall>i \<in> set (colorWrites s). 1 \<le> i \<and> i \<le> 8 \<and> i < int (length (Lights s))) \<and>
         (\<forall>p v. \<exists>s'. frame p v s = Inr s')"
proof -
  from reach_score_inv [OF assms] have inv: "score_inv s" .
  then have "length (Lights s) = 10"
    and "\<forall>i \<in> set (colorWrites s). 1 \<le> i \<and> i \<le> 8"
    by (simp_all add: score_inv_def)
  moreover have "\<exists>s'. frame p v s = Inr s'" for p v
    using frame_score_inv [OF inv, of p v] by blast
  ultimately show ?thesis
    by auto
qed

theorem light_writes_in_range_witness:
  "reach example_pending \<and> length (Lights example_pending) = 10 \<and>
   colorWrites example_pending = [4, 3, 2, 1] \<and>
   (\<exists>s'. frame (Vec3 3 1 (- 1)) (Vec3 1 1 0) example_pending = Inr s')"
proof -
  have "colorWrites example_pending = [4, 3, 2, 1]"
    by (simp add: example_pending_def)
  then show ?thesis
    using light_writes_in_range [OF reach_example_pending] reach_example_pending
    by simp
qed

text \<open>
  C4 fails as stated. Three frames that each end with a left goal bring \<open>lScore\<close> to 3. In
  the fourth such frame the counter reaches 4, and when that frame ends the counters are
  still \<open>(4, 0)\<close> and \<open>resetCheck\<close> is still false: \<open>scoreCheckReset\<close> ran before goal
  detection.
\<close>

theorem score_reset_same_frame_counterexample:
  "map_sum id scoreboard (run_frames [goal_left, goal_left, goal_left] example_start) = Inr (3, 0, False) \<and>
   map_sum id scoreboard (run_frames [goal_left, goal_left, goal_left, goal_left] example_start)
     = Inr (4, 0, False)"
  by (simp add: frame_eval goal_left_def example_start_def scoreboard_def
      initial_game_def CreateScene_Lights_def)

text \<open>
  C4, amended. At the head of every iteration of the game loop both counters are between
  0 and 4. A frame that starts with both counters below 4 adds one to \<open>lScore\<close> when its
  goal detection finds a left goal and one to \<open>rScore\<close> when it finds a right goal, and
  nothing else: neither counter decreases, together they grow by at most one, and the
  frame ends without a pending reset, also when a counter has reached 4 in it. A frame
  that starts with a counter at 4 sets both counters to 0 in its \<open>scoreCheckReset\<close>, which
  also sets \<open>resetCheck\<close>; the flag is still set when that frame ends.
\<close>

theorem score_counters_frame:
  assumes "reach s"
  shows "0 \<le> lScore s \<and> lScore s \<le> 4 \<and> 0 \<le> rScore s \<and> rScore s \<le> 4 \<and>
         (\<exists>s1 s'. checkIsReseting s = Inr s1 \<and> frame p v s = Inr s' \<and>
            (lScore s < 4 \<and> rScore s < 4 \<longrightarrow>
               lScore s' = lScore s + (if 17.6 \<le> vx p then 1 else 0) \<and>
               rScore s' = rScore s + (if vx p \<le> - 17.6 then 1 else 0) \<and>
               lScore s \<le> lScore s' \<and> rScore s \<le> rScore s' \<and>
               lScore s' + rScore s' \<le> lScore s + rScore s + 1 \<and>
               \<not> resetCheck s') \<and>
            (lScore s = 4 \<or> rScore s = 4 \<longrightarrow>
               lScore (scoreCheckReset s1) = 0 \<and> rScore (scoreCheckReset s1) = 0 \<and>
               resetCheck (scoreCheckReset s1) \<and> resetCheck s'))"
proof -
  from reach_score_inv [OF assms] have len: "length (Lights s) = 10"
    and sc: "0 \<le> lScore s" "lScore s \<le> 4" "0 \<le> rScore s" "rScore s \<le> 4"
    by (simp_all add: score_inv_def)
  from frame_step [OF len sc, of p v] obtain s1 s' where
    c: "checkIsReseting s = Inr s1" and f: "frame p v s = Inr s'"
    and s1: "lScore s1 = lScore s" "rScore s1 = rScore s"
    and s': "resetCheck s' = resetCheck (scoreCheckReset s1)"
      "resetCheck (scoreCheckReset s1) = (4 \<le> lScore s \<or> 4 \<le> rScore s)"
      "lScore s' = lScore (scoreCheckReset s1) + (if 17.6 \<le> vx p then 1 else 0)"
      "rScore s' = rScore (scoreCheckReset s1) + (if vx p \<le> - 17.6 then 1 else 0)"
    by blast
  have below: "lScore s' = lScore s + (if 17.6 \<le> vx p then 1 else 0) \<and>
      rScore s' = rScore s + (if vx p \<le> - 17.6 then 1 else 0) \<and>
      lScore s \<le> lScore s' \<and> rScore s \<le> rScore s' \<and>
      lScore s' + rScore s' \<le> lScore s + rScore s + 1 \<and> \<not> resetCheck s'"
    if "lScore s < 4 \<and> rScore s < 4"
    using that s' s1 by (auto simp: scoreCheckReset_scores)
  have reset: "lScore (scoreCheckReset s1) = 0 \<and> rScore (scoreCheckReset s1) = 0 \<and>
      resetCheck (scoreCheckReset s1) \<and> resetCheck s'"
    if "lScore s = 4 \<or> rScore s = 4"
    using that s'(1,2) s1 by (auto simp: scoreCheckReset_scores)
  show ?thesis
    using sc c f below reset by blast
qed

theorem score_counters_frame_witness:
  "reach example_start \<and> lScore example_start < 4 \<and> rScore example_start < 4 \<and>
   reach example_won \<and> lScore example_won = 4 \<and>
   (\<exists>s'. frame (Vec3 17.6 0 (- 1)) (Vec3 2 0 0) example_start = Inr s' \<and>
      lScore s' = lScore example_start + 1 \<and> rScore s' = rScore example_start \<and>
      \<not> resetCheck s') \<and>
   (\<exists>s1 s'. checkIsReseting example_won = Inr s1 \<and>
      frame (Vec3 3 1 (- 1)) (Vec3 1 1 0) example_won = Inr s' \<and>
      lScore (scoreCheckReset s1) = 0 \<and> rScore (scoreCheckReset s1) = 0 \<and>
      resetCheck (scoreCheckReset s1) \<and> resetCheck s')"
proof -
  have r0: "reach example_start"
    unfolding example_start_def by (rule reach.reach_init)
  have a: "lScore example_start < 4" "rScore example_start < 4"
    by (simp_all add: example_start_def initial_game_def)
  have b: "lScore example_won = 4"
    by (simp add: example_won_def)
  show ?thesis
    using score_counters_frame [OF r0, of "Vec3 17.6 0 (- 1)" "Vec3 2 0 0"]
      score_counters_frame [OF reach_example_won, of "Vec3 3 1 (- 1)" "Vec3 1 1 0"]
      r0 reach_example_won a b
    by auto
qed

lemma frame_pips:
  assumes inv: "pips n m s"
    and n: "n + (if 17.6 \<le> vx p then 1 else 0) < 4"
    and m: "m + (if vx p \<le> - 17.6 then 1 else 0) < 4"
  shows "\<exists>s'. frame p v s = Inr s' \<and>
     pips (n + (if 17.6 \<le> vx p then 1 else 0)) (m + (if vx p \<le> - 17.6 then 1 else 0)) s' \<and>
     Color (Lights s' ! 0) = Color (Lights s ! 0) \<and>
     Color (Lights s' ! 9) = Color (Lights s ! 9)"
proof -
  from inv have sc: "lScore s = int n" "rScore s = int m"
    and flag: "\<not> resetCheck s" and len: "length (Lights s) = 10"
    and left: "\<forall>i \<in> {1..4}. Color (Lights s ! i) = (if i \<le> n then yellow else black)"
    and right: "\<forall>i \<in> {5..8}. Color (Lights s ! i) = (if i \<le> m + 4 then yellow else black)"
    by (simp_all add: pips_def)
  have nm: "n < 4" "m < 4"
    using n m by (simp_all split: if_splits)
  have idle: "checkIsReseting s = Inr s" "scoreCheckReset s = s"
    using flag sc nm by (simp_all add: checkIsReseting_idle scoreCheckReset_idle)
  have b: "length (Lights s) = 10" "0 \<le> lScore s" "lScore s \<le> 3" "0 \<le> rScore s" "rScore s \<le> 3"
    using len sc nm by simp_all
  from goal_phase [OF b, of p v] obtain s' where
    g: "(case goalDetection (engineUpdate p v s) of Inl e \<Rightarrow> Inl e | Inr s2 \<Rightarrow> puckLight s2) = Inr s'"
    and s': "length (Lights s') = 10" "resetCheck s' = resetCheck s"
      "lScore s' = lScore s + (if 17.6 \<le> vx p then 1 else 0)"
      "rScore s' = rScore s + (if vx p \<le> - 17.6 then 1 else 0)"
    and lights: "\<forall>j < 10. Color (Lights s' ! j) =
        (if 17.6 \<le> vx p \<and> j = nat (lScore s + 1) \<or> vx p \<le> - 17.6 \<and> j = nat (rScore s + 5)
         then yellow else Color (Lights s ! j))"
    by blast
  have f: "frame p v s = Inr s'"
    using g idle by (simp add: frame_def)
  have ix: "nat (lScore s + 1) = n + 1" "nat (rScore s + 5) = m + 5"
    using sc by simp_all
  have excl: "\<not> (17.6 \<le> vx p \<and> vx p \<le> - 17.6)"
    by simp
  have l': "Color (Lights s' ! i) = (if i \<le> n + (if 17.6 \<le> vx p then 1 else 0) then yellow else black)"
    if "i \<in> {1..4}" for i
  proof -
    from that have "i < 10" and "i \<noteq> m + 5" by simp_all
    with lights left that show ?thesis
      by (auto simp: ix)
  qed
  have r': "Color (Lights s' ! i) = (if i \<le> m + (if vx p \<le> - 17.6 then 1 else 0) + 4 then yellow else black)"
    if "i \<in> {5..8}" for i
  proof -
    from that nm have "i < 10" and "i \<noteq> n + 1" by simp_all
    with lights right that show ?thesis
      by (auto simp: ix)
  qed
  have c0: "Color (Lights s' ! 0) = Color (Lights s ! 0)"
    using lights by (simp add: ix)
  have c9: "Color (Lights s' ! 9) = Color (Lights s ! 9)"
    using lights nm by (simp add: ix)
  have "pips (n + (if 17.6 \<le> vx p then 1 else 0)) (m + (if vx p \<le> - 17.6 then 1 else 0)) s'"
    unfolding pips_def using s' sc flag l' r' by auto
  with f c0 c9 show ?thesis
    by blast
qed

lemma run_frames_pips:
  "pips n m s \<Longrightarrow> n + leftGoals ins < 4 \<Longrightarrow> m + rightGoals ins < 4 \<Longrightarrow>
   \<exists>s'. run_frames ins s = Inr s' \<and> pips (n + leftGoals ins) (m + rightGoals ins) s' \<and>
     Color (Lights s' ! 0) = Color (Lights s ! 0) \<and>
     Color (Lights s' ! 9) = Color (Lights s ! 9)"
proof (induction ins arbitrary: n m s)
  case Nil
  then show ?case
    by (simp add: leftGoals_def rightGoals_def)
next
  case (Cons a ins)
  obtain p v where a: "a = (p, v)" by (cases a)
  let ?dl = "if 17.6 \<le> vx p then 1 else 0 :: nat"
  let ?dr = "if vx p \<le> - 17.6 then 1 else 0 :: nat"
  have lg: "leftGoals (a # ins) = ?dl + leftGoals ins"
    and rg: "rightGoals (a # ins) = ?dr + rightGoals ins"
    by (simp_all add: a leftGoals_def rightGoals_def)
  have "n + ?dl < 4" "m + ?dr < 4"
    using Cons.prems(2,3) lg rg by linarith+
  from frame_pips [OF Cons.prems(1) this, of v] obtain s1 where
    f: "frame p v s = Inr s1" and inv: "pips (n + ?dl) (m + ?dr) s1"
    and c: "Color (Lights s1 ! 0) = Color (Lights s ! 0)" "Color (Lights s1 ! 9) = Color (Lights s ! 9)"
    by blast
  have "n + ?dl + leftGoals ins < 4" "m + ?dr + rightGoals ins < 4"
    using Cons.prems(2,3) lg rg by linarith+
  from Cons.IH [OF inv this] obtain s' where
    r: "run_frames ins s1 = Inr s'"
    and inv': "pips (n + ?dl + leftGoals ins) (m + ?dr + rightGoals ins) s'"
    and c': "Color (Lights s' ! 0) = Color (Lights s1 ! 0)" "Color (Lights s' ! 9) = Color (Lights s1 ! 9)"
    by blast
  have "run_frames (a # ins) s = Inr s'"
    using f r by (simp add: a)
  moreover have "pips (n + leftGoals (a # ins)) (m + rightGoals (a # ins)) s'"
    using inv' by (simp only: lg rg add.assoc)
  ultimately show ?case
    using c c' by auto
qed

lemma pips_count:
  assumes "pips n m s" and "n < 4" and "m < 4"
  shows "length (filter (lit s) [1..<5]) = n \<and> length (filter (lit s) [5..<9]) = m \<and>
         (\<forall>i \<in> {1..8}. \<not> lit s i \<longrightarrow> unlit s i)"
proof -
  from assms(1) have
    left: "\<forall>i \<in> {1..4}. Color (Lights s ! i) = (if i \<le> n then yellow else black)"
    and right: "\<forall>i \<in> {5..8}. Color (Lights s ! i) = (if i \<le> m + 4 then yellow else black)"
    by (simp_all add: pips_def)
  have l: "lit s i = (i \<le> n)" if "i \<in> {1..4}" for i
    using left that yellow_not_black by (auto simp: lit_def)
  have r: "lit s i = (i \<le> m + 4)" if "i \<in> {5..8}" for i
    using right that yellow_not_black by (auto simp: lit_def)
  have "n = 0 \<or> n = 1 \<or> n = 2 \<or> n = 3"
    using assms(2) by linarith
  then have "length (filter (lit s) [1, 2, 3, 4]) = n"
    using l [of 1] l [of 2] l [of 3] l [of 4] by auto
  then have cl: "length (filter (lit s) [1..<5]) = n"
    by (simp only: upt_1_5)
  have "m = 0 \<or> m = 1 \<or> m = 2 \<or> m = 3"
    using assms(3) by linarith
  then have "length (filter (lit s) [5, 6, 7, 8]) = m"
    using r [of 5] r [of 6] r [of 7] r [of 8] by auto
  then have cr: "length (filter (lit s) [5..<9]) = m"
    by (simp only: upt_5_9)
  have u: "unlit s i" if "i \<in> {1..8}" "\<not> lit s i" for i
  proof (cases "i \<le> 4")
    case True
    with that left show ?thesis
      by (auto simp: lit_def unlit_def split: if_splits)
  next
    case False
    with that right show ?thesis
      by (auto simp: lit_def unlit_def split: if_splits)
  qed
  show ?thesis
    using cl cr u by blast
qed

lemma fresh_round_pips: "fresh_round s \<Longrightarrow> pips 0 0 s"
  by (auto simp: fresh_round_def pips_def unlit_def)

text \<open>
  C5. From the start of a round, after frames with \<open>N < 4\<close> left goals and \<open>M < 4\<close> right
  goals in any order (so that no win-reset comes between), exactly \<open>N\<close> of the lights 1 to
  4 and exactly \<open>M\<close> of the lights 5 to 8 are yellow, every other light from 1 to 8 is black,
  and the lights 0 and 9 have the colours they had at the start.
\<close>

theorem indicator_lights_count_goals:
  assumes "fresh_round s0" and "leftGoals ins < 4" and "rightGoals ins < 4"
  shows "\<exists>s. run_frames ins s0 = Inr s \<and>
           length (filter (lit s) [1..<5]) = leftGoals ins \<and>
           length (filter (lit s) [5..<9]) = rightGoals ins \<and>
           (\<forall>i \<in> {1..8}. \<not> lit s i \<longrightarrow> unlit s i) \<and>
           Color (Lights s ! 0) = Color (Lights s0 ! 0) \<and>
           Color (Lights s ! 9) = Color (Lights s0 ! 9)"
proof -
  have "0 + leftGoals ins < 4" "0 + rightGoals ins < 4"
    using assms(2,3) by simp_all
  from run_frames_pips [OF fresh_round_pips [OF assms(1)] this] obtain s where
    r: "run_frames ins s0 = Inr s" and inv: "pips (leftGoals ins) (rightGoals ins) s"
    and c: "Color (Lights s ! 0) = Color (Lights s0 ! 0)" "Color (Lights s ! 9) = Color (Lights s0 ! 9)"
    by auto
  from pips_count [OF inv assms(2,3)] r c show ?thesis
    by blast
qed

theorem indicator_lights_count_goals_witness:
  "fresh_round example_start \<and>
   leftGoals [goal_left, no_goal, goal_right, goal_left] = 2 \<and>
   rightGoals [goal_left, no_goal, goal_right, goal_left] = 1 \<and>
   (\<exists>s. run_frames [goal_left, no_goal, goal_right, goal_left] example_start = Inr s \<and>
      length (filter (lit s) [1..<5]) = 2 \<and>
      length (filter (lit s) [5..<9]) = 1 \<and>
      Color (Lights s ! 0) = Vec3 1 1 1 \<and>
      Color (Lights s ! 9) = Vec3 0.043 0.043 0)"
proof -
  have f: "fresh_round example_start"
    by (simp add: fresh_round_def unlit_def example_start_def initial_game_def
        CreateScene_Lights_def black_def atLeastAtMost_def atLeast_def atMost_def
        nth_Cons' )
  have g: "leftGoals [goal_left, no_goal, goal_right, goal_left] = 2"
    "rightGoals [goal_left, no_goal, goal_right, goal_left] = 1"
    by (simp_all add: leftGoals_def rightGoals_def goal_left_def goal_right_def no_goal_def)
  have c: "Color (Lights example_start ! 0) = Vec3 1 1 1"
    "Color (Lights example_start ! 9) = Vec3 0.043 0.043 0"
    by (simp_all add: example_start_def initial_game_def CreateScene_Lights_def)
  let ?ins = "[goal_left, no_goal, goal_right, goal_left]"
  have "leftGoals ?ins < 4" "rightGoals ?ins < 4"
    by (simp_all add: g)
  from indicator_lights_count_goals [OF f this] obtain s where
    r: "run_frames ?ins example_start = Inr s"
    and n: "length (filter (lit s) [1..<5]) = leftGoals ?ins"
    and m: "length (filter (lit s) [5..<9]) = rightGoals ?ins"
    and c0: "Color (Lights s ! 0) = Color (Lights example_start ! 0)"
    and c9: "Color (Lights s ! 9) = Color (Lights example_start ! 9)"
    by blast
  have "length (filter (lit s) [1..<5]) = 2"
    using n g(1) by (rule trans)
  moreover have "length (filter (lit s) [5..<9]) = 1"
    using m g(2) by (rule trans)
  moreover have "Color (Lights s ! 0) = Vec3 1 1 1"
    using c0 c(1) by (rule trans)
  moreover have "Color (Lights s ! 9) = Vec3 0.043 0.043 0"
    using c9 c(2) by (rule trans)
  ultimately show ?thesis
    using f g r by blast
qed

end
